theory Spec2Isabelle
  imports Main "HOL-Library.Sublist"
begin

section \<open>The Telluride ski rental MCP server (src/telluride-ski-rental-mcp/src/index.ts)\<close>

text \<open>
  The server answers tool calls over a fixed in-memory array \<open>skiRentals\<close>. The embedding
  follows \<open>index.ts\<close>: the \<open>SkiRental\<close> interface is a record, the array is a list, the
  handler registered for \<open>CallToolRequestSchema\<close> is a function from the tool name and the
  argument bag to the returned object, and whatever its \<open>try\<close> block can throw is a value
  of a sum type that the \<open>catch\<close> clause turns into a response.

  Strings are \<open>string\<close> (lists of 8-bit characters). The catalog, the tool names and the
  keywords of the source are ASCII. The function \<open>toLowerCase\<close> below is
  \<open>String.prototype.toLowerCase\<close> on ASCII text: it turns the letters A to Z into a to z
  and leaves every other character as it is. The handler is given first with this
  function, then with the lower-casing as an argument, for the statements about queries
  and needs of any text, and last on a heap, for the statements about the catalog in
  memory.
\<close>

subsection \<open>Library functions of the language\<close>

definition toLowerCase_char :: "char \<Rightarrow> char" where
  "toLowerCase_char c =
     (let n = (of_char c :: nat) in if 65 \<le> n \<and> n \<le> 90 then char_of (n + 32) else c)"

definition toLowerCase :: "string \<Rightarrow> string" where
  "toLowerCase s = map toLowerCase_char s"

text \<open>\<open>s.includes(q)\<close>: does \<open>q\<close> occur in \<open>s\<close> as a contiguous run of characters.\<close>

fun includes_str :: "string \<Rightarrow> string \<Rightarrow> bool" where
  "includes_str [] q = (q = [])"
| "includes_str (c # cs) q = (prefix q (c # cs) \<or> includes_str cs q)"

text \<open>\<open>xs.some(p)\<close> is \<^const>\<open>list_ex\<close>, \<open>xs.filter(p)\<close> is \<^const>\<open>filter\<close> and
  \<open>xs.find(p)\<close> is \<^const>\<open>List.find\<close>, with \<open>None\<close> for \<open>undefined\<close>.\<close>

subsection \<open>JSON.stringify(value, null, 2)\<close>

text \<open>
  The values the handler serialises are strings, arrays and objects with string keys.
  An object is the list of its own properties in insertion order; a property whose value
  is \<open>undefined\<close> is not in the list, as \<open>JSON.stringify\<close> leaves it out.
\<close>

datatype json = JString string | JArray "json list" | JObject "(string \<times> json) list"

definition dquote :: string where
  "dquote = [CHR 0x22]"

definition backslash :: string where
  "backslash = [CHR 0x5C]"

definition newline :: string where
  "newline = [CHR 0x0A]"

definition hex_digit :: "nat \<Rightarrow> char" where
  "hex_digit d = (if d < 10 then char_of (48 + d) else char_of (87 + d))"

text \<open>QuoteJSONString: the two-character escapes, \<open>\u00XX\<close> for the other control
  characters, every other character as it is.\<close>

definition quote_char :: "char \<Rightarrow> string" where
  "quote_char c =
     (let n = (of_char c :: nat) in
      if n = 0x22 then backslash @ dquote
      else if n = 0x5C then backslash @ backslash
      else if n = 0x08 then backslash @ ''b''
      else if n = 0x09 then backslash @ ''t''
      else if n = 0x0A then backslash @ ''n''
      else if n = 0x0C then backslash @ ''f''
      else if n = 0x0D then backslash @ ''r''
      else if n < 0x20 then backslash @ ''u00'' @ [hex_digit (n div 16), hex_digit (n mod 16)]
      else [c])"

definition QuoteJSONString :: "string \<Rightarrow> string" where
  "QuoteJSONString s = dquote @ concat (map quote_char s) @ dquote"

fun join :: "string \<Rightarrow> string list \<Rightarrow> string" where
  "join sep [] = []"
| "join sep [x] = x"
| "join sep (x # y # ys) = x @ sep @ join sep (y # ys)"

definition gap :: string where
  "gap = ''  ''"

text \<open>SerializeJSONProperty with the current indentation as first argument.\<close>

fun SerializeJSON :: "string \<Rightarrow> json \<Rightarrow> string" where
  "SerializeJSON indent (JString s) = QuoteJSONString s"
| "SerializeJSON indent (JArray xs) =
     (if xs = [] then ''[]''
      else ''['' @ newline @ (indent @ gap)
           @ join ('','' @ newline @ (indent @ gap)) (map (SerializeJSON (indent @ gap)) xs)
           @ newline @ indent @ '']'')"
| "SerializeJSON indent (JObject ps) =
     (if ps = [] then ''{}''
      else ''{'' @ newline @ (indent @ gap)
           @ join ('','' @ newline @ (indent @ gap))
               (map (\<lambda>p. QuoteJSONString (fst p) @ '': '' @ SerializeJSON (indent @ gap) (snd p)) ps)
           @ newline @ indent @ ''}'')"

definition JSON_stringify :: "json \<Rightarrow> string" where
  "JSON_stringify v = SerializeJSON [] v"

subsection \<open>The catalog\<close>

text \<open>The interface \<open>SkiRental\<close>; its field \<open>id\<close> is \<open>id'\<close> here, \<open>id\<close> being the identity
  function of HOL. Optional fields are options.\<close>

record SkiRental =
  id' :: string
  name :: string
  location :: string
  address :: string
  phone :: string
  website :: "string option"
  description :: string
  services :: "string list"
  rentalTypes :: "string list"
  priceRange :: string
  hours :: "string option"

definition skiRentals :: "SkiRental list" where
  "skiRentals = [
    \<lparr> id' = ''telluride-sports'',
      name = ''Telluride Sports'',
      location = ''Telluride'',
      address = ''150 W Colorado Ave, Telluride, CO 81435'',
      phone = ''(970) 728-4477'',
      website = Some ''https://www.tellurideports.com'',
      description = ''Full-service ski and snowboard shop in downtown Telluride offering premium rentals, demos, and expert fitting services.'',
      services = [''Ski Rentals'', ''Snowboard Rentals'', ''Demo Equipment'', ''Tune-ups'', ''Repairs'', ''Boot Fitting''],
      rentalTypes = [''Adult Skis'', ''Junior Skis'', ''Performance Skis'', ''Snowboards'', ''Boots'', ''Poles'', ''Helmets''],
      priceRange = ''$40-$80/day'',
      hours = Some ''8:00 AM - 6:00 PM daily'' \<rparr>,
    \<lparr> id' = ''bootdoctors'',
      name = ''Bootdoctors'',
      location = ''Mountain Village'',
      address = ''568 Mountain Village Blvd, Mountain Village, CO 81435'',
      phone = ''(970) 728-4882'',
      website = Some ''https://www.bootdoctors.com'',
      description = ''Renowned for custom boot fitting and high-performance ski rentals. Located at the base of the gondola in Mountain Village.'',
      services = [''Premium Rentals'', ''Custom Boot Fitting'', ''Expert Advice'', ''Demo Skis'', ''Repairs''],
      rentalTypes = [''High-Performance Skis'', ''All-Mountain Skis'', ''Powder Skis'', ''Touring Equipment'', ''Custom Boots''],
      priceRange = ''$50-$100/day'',
      hours = Some ''8:00 AM - 5:00 PM daily'' \<rparr>,
    \<lparr> id' = ''jagged-edge'',
      name = ''Jagged Edge Mountain Gear'',
      location = ''Telluride'',
      address = ''223 E Colorado Ave, Telluride, CO 81435'',
      phone = ''(970) 728-9264'',
      website = Some ''https://www.jaggededgemountaingear.com'',
      description = ''Local favorite offering quality ski rentals, backcountry gear, and personalized service in downtown Telluride.'',
      services = [''Ski Rentals'', ''Backcountry Gear'', ''Avalanche Safety Equipment'', ''Repairs'', ''Expert Consultation''],
      rentalTypes = [''All-Mountain Skis'', ''Backcountry Skis'', ''Touring Gear'', ''Splitboards'', ''Safety Equipment''],
      priceRange = ''$35-$75/day'',
      hours = Some ''8:00 AM - 6:00 PM daily'' \<rparr>,
    \<lparr> id' = ''paragon-ski-snowboard'',
      name = ''Paragon Ski & Snowboard'',
      location = ''Mountain Village'',
      address = ''Mountain Village Plaza, Mountain Village, CO 81435'',
      phone = ''(970) 369-0435'',
      website = Some ''https://www.paragontelluride.com'',
      description = ''Conveniently located in Mountain Village offering a wide selection of rental equipment for all skill levels.'',
      services = [''Ski Rentals'', ''Snowboard Rentals'', ''Group Rentals'', ''Online Reservations'', ''Delivery Service''],
      rentalTypes = [''Beginner Packages'', ''Intermediate Skis'', ''Advanced Skis'', ''Snowboards'', ''Kids Equipment''],
      priceRange = ''$35-$70/day'',
      hours = Some ''7:30 AM - 5:30 PM daily'' \<rparr>,
    \<lparr> id' = ''telluride-ski-rental-delivery'',
      name = ''Telluride Ski Rental Delivery'',
      location = ''Telluride (Delivery Service)'',
      address = ''Delivery to your location in Telluride area'',
      phone = ''(970) 708-8754'',
      website = Some ''https://www.tellurideskirentaldelivery.com'',
      description = ''Premium ski rental delivery service bringing equipment directly to your accommodation with professional fitting.'',
      services = [''Delivery Service'', ''In-Room Fitting'', ''Premium Equipment'', ''Flexible Pickup'', ''24/7 Support''],
      rentalTypes = [''Premium Skis'', ''High-End Snowboards'', ''Kids Equipment'', ''Full Packages''],
      priceRange = ''$45-$90/day + delivery fee'',
      hours = Some ''By appointment - 7 days a week'' \<rparr>,
    \<lparr> id' = ''mountain-sports-telluride'',
      name = ''Mountain Sports Telluride'',
      location = ''Telluride'',
      address = ''100 W San Juan Ave, Telluride, CO 81435'',
      phone = ''(970) 728-4239'',
      website = None,
      description = ''Long-established Telluride shop offering affordable ski rentals and expert local knowledge.'',
      services = [''Ski Rentals'', ''Snowboard Rentals'', ''Repairs'', ''Waxing'', ''Tune-ups''],
      rentalTypes = [''Standard Skis'', ''Performance Skis'', ''Snowboards'', ''Kids Equipment'', ''Boots'', ''Helmets''],
      priceRange = ''$30-$65/day'',
      hours = Some ''8:00 AM - 6:00 PM daily'' \<rparr>
  ]"

text \<open>What \<open>JSON.stringify\<close> sees of a record: its properties in the order of the object
  literal; \<open>website\<close> and \<open>hours\<close> are optional and left out when absent.\<close>

definition SkiRental_json :: "SkiRental \<Rightarrow> json" where
  "SkiRental_json r = JObject (
     [(''id'', JString (id' r)),
      (''name'', JString (name r)),
      (''location'', JString (location r)),
      (''address'', JString (address r)),
      (''phone'', JString (phone r))]
     @ (case website r of None \<Rightarrow> [] | Some w \<Rightarrow> [(''website'', JString w)])
     @ [(''description'', JString (description r)),
        (''services'', JArray (map JString (services r))),
        (''rentalTypes'', JArray (map JString (rentalTypes r))),
        (''priceRange'', JString (priceRange r))]
     @ (case hours r of None \<Rightarrow> [] | Some h \<Rightarrow> [(''hours'', JString h)]))"

definition SkiRentals_json :: "SkiRental list \<Rightarrow> json" where
  "SkiRentals_json rs = JArray (map SkiRental_json rs)"

subsection \<open>The tool registry (handler of ListToolsRequestSchema)\<close>

record Tool =
  tool_name :: string
  tool_description :: string
  properties :: "(string \<times> string \<times> string) list"
  required :: "string list"

text \<open>Each property is (name, type, description); \<open>list_ski_rentals\<close> declares no
  \<open>required\<close> array.\<close>

definition tools :: "Tool list" where
  "tools = [
    \<lparr> tool_name = ''list_ski_rentals'',
      tool_description = ''Get a list of all ski rental places near Telluride, Colorado with their details'',
      properties = [],
      required = [] \<rparr>,
    \<lparr> tool_name = ''get_rental_details'',
      tool_description = ''Get detailed information about a specific ski rental shop by ID'',
      properties = [(''rental_id'', ''string'', ''The ID of the ski rental shop'')],
      required = [''rental_id''] \<rparr>,
    \<lparr> tool_name = ''search_rentals'',
      tool_description = ''Search for ski rental shops by location, service type, or rental type'',
      properties = [(''query'', ''string'', ''Search query (location, service, or equipment type)'')],
      required = [''query''] \<rparr>,
    \<lparr> tool_name = ''get_rental_recommendations'',
      tool_description = ''Get ski rental recommendations based on needs (beginner, expert, backcountry, delivery, etc.)'',
      properties = [(''need'', ''string'',
        ''Type of need: '' @ [CHR 0x27] @ ''beginner'' @ [CHR 0x27] @ '', '' @ [CHR 0x27] @ ''expert'' @ [CHR 0x27]
        @ '', '' @ [CHR 0x27] @ ''backcountry'' @ [CHR 0x27] @ '', '' @ [CHR 0x27] @ ''delivery'' @ [CHR 0x27]
        @ '', '' @ [CHR 0x27] @ ''budget'' @ [CHR 0x27] @ '', '' @ [CHR 0x27] @ ''premium'' @ [CHR 0x27]
        @ '', '' @ [CHR 0x27] @ ''family'' @ [CHR 0x27])],
      required = [''need''] \<rparr>
  ]"

subsection \<open>Calls, results and thrown errors\<close>

text \<open>
  \<open>request.params.arguments\<close> is optional: \<open>None\<close> is a call without an argument bag.
  A bag maps a key to its value, \<open>None\<close> for a key that is absent (reading it gives
  \<open>undefined\<close>). The input schemas declare every argument a string, and the handler
  casts each one to \<open>string\<close>; the values of the model are strings.
\<close>

type_synonym arguments = "(string \<rightharpoonup> string) option"

record content_block =
  block_type :: string
  block_text :: string

text \<open>The successful returns of the source carry no \<open>isError\<close> property: \<open>None\<close>.\<close>

record CallToolResult =
  content :: "content_block list"
  isError :: "bool option"

datatype js_error = TypeError string

fun message :: "js_error \<Rightarrow> string" where
  "message (TypeError m) = m"

text \<open>The message of the TypeError that Node raises for a property read on \<open>undefined\<close>.\<close>

definition cannot_read_undefined :: "string \<Rightarrow> string" where
  "cannot_read_undefined k =
     ''Cannot read properties of undefined (reading '' @ [CHR 0x27] @ k @ [CHR 0x27] @ '')''"

text \<open>\<open>args.k\<close>: throws when there is no bag, otherwise the value or \<open>undefined\<close>.\<close>

definition get_arg :: "arguments \<Rightarrow> string \<Rightarrow> js_error + string option" where
  "get_arg args k =
     (case args of
        None \<Rightarrow> Inl (TypeError (cannot_read_undefined k))
      | Some bag \<Rightarrow> Inr (bag k))"

text \<open>\<open>(v as string).toLowerCase()\<close>: the cast checks nothing, the call throws on
  \<open>undefined\<close>.\<close>

definition call_toLowerCase :: "string option \<Rightarrow> js_error + string" where
  "call_toLowerCase v =
     (case v of
        None \<Rightarrow> Inl (TypeError (cannot_read_undefined ''toLowerCase''))
      | Some s \<Rightarrow> Inr (toLowerCase s))"

text \<open>A value inside a template literal.\<close>

definition template_value :: "string option \<Rightarrow> string" where
  "template_value v = (case v of None \<Rightarrow> ''undefined'' | Some s \<Rightarrow> s)"

definition text_result :: "string \<Rightarrow> CallToolResult" where
  "text_result t = \<lparr> content = [\<lparr> block_type = ''text'', block_text = t \<rparr>], isError = None \<rparr>"

definition error_result :: "string \<Rightarrow> CallToolResult" where
  "error_result t = \<lparr> content = [\<lparr> block_type = ''text'', block_text = t \<rparr>], isError = Some True \<rparr>"

subsection \<open>The handler of CallToolRequestSchema\<close>

text \<open>
  The handler reads the module-level array; the model takes it as the argument \<open>store\<close>,
  which is \<^const>\<open>skiRentals\<close> in the running server.

  The \<open>switch (need)\<close> of the \<open>get_rental_recommendations\<close> branch, on the lower-cased
  argument: the pair of \<open>recommendations\<close> and \<open>explanation\<close> it leaves behind.
\<close>

definition switch_need :: "SkiRental list \<Rightarrow> string \<Rightarrow> SkiRental list \<times> string" where
  "switch_need store need =
     (if need = ''beginner'' then
        (filter (\<lambda>r. list_ex (\<lambda>t. includes_str (toLowerCase t) ''beginner'') (rentalTypes r)
                     \<or> id' r = ''paragon-ski-snowboard''
                     \<or> id' r = ''mountain-sports-telluride'') store,
         ''These shops offer beginner-friendly equipment and packages with great service for first-timers.'')
      else if need = ''expert'' \<or> need = ''advanced'' then
        (filter (\<lambda>r. list_ex (\<lambda>t. includes_str (toLowerCase t) ''performance''
                                   \<or> includes_str (toLowerCase t) ''premium'') (rentalTypes r)
                     \<or> id' r = ''bootdoctors''
                     \<or> id' r = ''telluride-sports'') store,
         ''These shops specialize in high-performance equipment and expert boot fitting for advanced skiers.'')
      else if need = ''backcountry'' \<or> need = ''touring'' then
        (filter (\<lambda>r. list_ex (\<lambda>s. includes_str (toLowerCase s) ''backcountry'') (services r)
                     \<or> list_ex (\<lambda>t. includes_str (toLowerCase t) ''backcountry''
                                     \<or> includes_str (toLowerCase t) ''touring'') (rentalTypes r)) store,
         ''These shops offer backcountry and touring equipment with avalanche safety gear.'')
      else if need = ''delivery'' then
        (filter (\<lambda>r. list_ex (\<lambda>s. includes_str (toLowerCase s) ''delivery'') (services r)
                     \<or> id' r = ''telluride-ski-rental-delivery'') store,
         ''These shops offer delivery service to your accommodation.'')
      else if need = ''budget'' \<or> need = ''affordable'' then
        (filter (\<lambda>r. includes_str (priceRange r) ''$30''
                     \<or> includes_str (priceRange r) ''$35''
                     \<or> id' r = ''mountain-sports-telluride'') store,
         ''These shops offer the most affordable rental options in the Telluride area.'')
      else if need = ''premium'' \<or> need = ''luxury'' then
        (filter (\<lambda>r. id' r = ''bootdoctors''
                     \<or> id' r = ''telluride-ski-rental-delivery''
                     \<or> id' r = ''telluride-sports'') store,
         ''These shops offer premium equipment and high-end services for the best skiing experience.'')
      else if need = ''family'' \<or> need = ''kids'' then
        (filter (\<lambda>r. list_ex (\<lambda>t. includes_str (toLowerCase t) ''kids''
                                   \<or> includes_str (toLowerCase t) ''junior'') (rentalTypes r)) store,
         ''These shops have great options for families and children'' @ [CHR 0x27] @ ''s equipment.'')
      else
        (store, ''Here are all available ski rental options in the Telluride area.''))"

text \<open>The object \<open>{ explanation, recommendations }\<close> as \<open>JSON.stringify\<close> sees it.\<close>

definition response_json :: "SkiRental list \<times> string \<Rightarrow> json" where
  "response_json p =
     JObject [(''explanation'', JString (snd p)), (''recommendations'', SkiRentals_json (fst p))]"

text \<open>The filter of the \<open>search_rentals\<close> branch, on the lower-cased query.\<close>

definition search_filter :: "string \<Rightarrow> SkiRental \<Rightarrow> bool" where
  "search_filter query rental =
     (includes_str (toLowerCase (name rental)) query
      \<or> includes_str (toLowerCase (location rental)) query
      \<or> includes_str (toLowerCase (description rental)) query
      \<or> list_ex (\<lambda>s. includes_str (toLowerCase s) query) (services rental)
      \<or> list_ex (\<lambda>t. includes_str (toLowerCase t) query) (rentalTypes rental))"

text \<open>The body of the \<open>try\<close> block: \<open>Inl\<close> is a thrown error, \<open>Inr\<close> a returned object.\<close>

definition try_block :: "SkiRental list \<Rightarrow> string \<Rightarrow> arguments \<Rightarrow> js_error + CallToolResult" where
  "try_block store nm args =
     (if nm = ''list_ski_rentals'' then
        Inr (text_result (JSON_stringify (SkiRentals_json store)))
      else if nm = ''get_rental_details'' then
        (case get_arg args ''rental_id'' of
           Inl e \<Rightarrow> Inl e
         | Inr rentalId \<Rightarrow>
             (case List.find (\<lambda>r. Some (id' r) = rentalId) store of
                None \<Rightarrow>
                  Inr (error_result (''Ski rental shop with ID '' @ dquote @ template_value rentalId
                                     @ dquote @ '' not found.''))
              | Some rental \<Rightarrow> Inr (text_result (JSON_stringify (SkiRental_json rental)))))
      else if nm = ''search_rentals'' then
        (case get_arg args ''query'' of
           Inl e \<Rightarrow> Inl e
         | Inr v \<Rightarrow>
             (case call_toLowerCase v of
                Inl e \<Rightarrow> Inl e
              | Inr query \<Rightarrow>
                  Inr (text_result (JSON_stringify (SkiRentals_json (filter (search_filter query) store))))))
      else if nm = ''get_rental_recommendations'' then
        (case get_arg args ''need'' of
           Inl e \<Rightarrow> Inl e
         | Inr v \<Rightarrow>
             (case call_toLowerCase v of
                Inl e \<Rightarrow> Inl e
              | Inr need \<Rightarrow>
                  Inr (text_result (JSON_stringify (response_json (switch_need store need))))))
      else
        Inr (error_result (''Unknown tool: '' @ nm)))"

text \<open>The handler: the \<open>try\<close> block, and the \<open>catch\<close> clause for what it throws (every
  thrown value is an \<open>Error\<close>, so the text carries its \<open>message\<close>).\<close>

definition CallToolRequest_handler :: "SkiRental list \<Rightarrow> string \<Rightarrow> arguments \<Rightarrow> CallToolResult" where
  "CallToolRequest_handler store nm args =
     (case try_block store nm args of
        Inr result \<Rightarrow> result
      | Inl error \<Rightarrow> error_result (''Error: '' @ message error))"

subsection \<open>The handler on arbitrary text\<close>

text \<open>
  \<^const>\<open>toLowerCase\<close> is \<open>String.prototype.toLowerCase\<close> on strings of ASCII characters. On
  other text the method follows the Unicode tables of the engine (the Kelvin sign becomes
  \<open>k\<close>), which are not part of the repository. The definitions of this section are the
  handler once more, with the lower-casing as the argument \<open>lower\<close>; what holds of them
  for every \<open>lower\<close> holds of the handler whatever the engine does. With
  \<^const>\<open>toLowerCase\<close> for \<open>lower\<close> they are the definitions above.

  The \<open>switch (need)\<close>: the predicate handed to \<open>skiRentals.filter\<close> (\<open>None\<close> in the
  \<open>default\<close> case, where \<open>recommendations\<close> is the array itself) and the explanation.
\<close>

definition switch_case_with ::
  "(string \<Rightarrow> string) \<Rightarrow> string \<Rightarrow> (SkiRental \<Rightarrow> bool) option \<times> string" where
  "switch_case_with lower need =
     (if need = ''beginner'' then
        (Some (\<lambda>r. list_ex (\<lambda>t. includes_str (lower t) ''beginner'') (rentalTypes r)
                   \<or> id' r = ''paragon-ski-snowboard''
                   \<or> id' r = ''mountain-sports-telluride''),
         ''These shops offer beginner-friendly equipment and packages with great service for first-timers.'')
      else if need = ''expert'' \<or> need = ''advanced'' then
        (Some (\<lambda>r. list_ex (\<lambda>t. includes_str (lower t) ''performance''
                                 \<or> includes_str (lower t) ''premium'') (rentalTypes r)
                   \<or> id' r = ''bootdoctors''
                   \<or> id' r = ''telluride-sports''),
         ''These shops specialize in high-performance equipment and expert boot fitting for advanced skiers.'')
      else if need = ''backcountry'' \<or> need = ''touring'' then
        (Some (\<lambda>r. list_ex (\<lambda>s. includes_str (lower s) ''backcountry'') (services r)
                   \<or> list_ex (\<lambda>t. includes_str (lower t) ''backcountry''
                                   \<or> includes_str (lower t) ''touring'') (rentalTypes r)),
         ''These shops offer backcountry and touring equipment with avalanche safety gear.'')
      else if need = ''delivery'' then
        (Some (\<lambda>r. list_ex (\<lambda>s. includes_str (lower s) ''delivery'') (services r)
                   \<or> id' r = ''telluride-ski-rental-delivery''),
         ''These shops offer delivery service to your accommodation.'')
      else if need = ''budget'' \<or> need = ''affordable'' then
        (Some (\<lambda>r. includes_str (priceRange r) ''$30''
                   \<or> includes_str (priceRange r) ''$35''
                   \<or> id' r = ''mountain-sports-telluride''),
         ''These shops offer the most affordable rental options in the Telluride area.'')
      else if need = ''premium'' \<or> need = ''luxury'' then
        (Some (\<lambda>r. id' r = ''bootdoctors''
                   \<or> id' r = ''telluride-ski-rental-delivery''
                   \<or> id' r = ''telluride-sports''),
         ''These shops offer premium equipment and high-end services for the best skiing experience.'')
      else if need = ''family'' \<or> need = ''kids'' then
        (Some (\<lambda>r. list_ex (\<lambda>t. includes_str (lower t) ''kids''
                                 \<or> includes_str (lower t) ''junior'') (rentalTypes r)),
         ''These shops have great options for families and children'' @ [CHR 0x27] @ ''s equipment.'')
      else
        (None, ''Here are all available ski rental options in the Telluride area.''))"

definition switch_need_with ::
  "(string \<Rightarrow> string) \<Rightarrow> SkiRental list \<Rightarrow> string \<Rightarrow> SkiRental list \<times> string" where
  "switch_need_with lower store need =
     (case fst (switch_case_with lower need) of
        None \<Rightarrow> (store, snd (switch_case_with lower need))
      | Some p \<Rightarrow> (filter p store, snd (switch_case_with lower need)))"

definition search_filter_with :: "(string \<Rightarrow> string) \<Rightarrow> string \<Rightarrow> SkiRental \<Rightarrow> bool" where
  "search_filter_with lower query rental =
     (includes_str (lower (name rental)) query
      \<or> includes_str (lower (location rental)) query
      \<or> includes_str (lower (description rental)) query
      \<or> list_ex (\<lambda>s. includes_str (lower s) query) (services rental)
      \<or> list_ex (\<lambda>t. includes_str (lower t) query) (rentalTypes rental))"

definition call_toLowerCase_with :: "(string \<Rightarrow> string) \<Rightarrow> string option \<Rightarrow> js_error + string" where
  "call_toLowerCase_with lower v =
     (case v of
        None \<Rightarrow> Inl (TypeError (cannot_read_undefined ''toLowerCase''))
      | Some s \<Rightarrow> Inr (lower s))"

definition try_block_with ::
  "(string \<Rightarrow> string) \<Rightarrow> SkiRental list \<Rightarrow> string \<Rightarrow> arguments \<Rightarrow> js_error + CallToolResult" where
  "try_block_with lower store nm args =
     (if nm = ''list_ski_rentals'' then
        Inr (text_result (JSON_stringify (SkiRentals_json store)))
      else if nm = ''get_rental_details'' then
        (case get_arg args ''rental_id'' of
           Inl e \<Rightarrow> Inl e
         | Inr rentalId \<Rightarrow>
             (case List.find (\<lambda>r. Some (id' r) = rentalId) store of
                None \<Rightarrow>
                  Inr (error_result (''Ski rental shop with ID '' @ dquote @ template_value rentalId
                                     @ dquote @ '' not found.''))
              | Some rental \<Rightarrow> Inr (text_result (JSON_stringify (SkiRental_json rental)))))
      else if nm = ''search_rentals'' then
        (case get_arg args ''query'' of
           Inl e \<Rightarrow> Inl e
         | Inr v \<Rightarrow>
             (case call_toLowerCase_with lower v of
                Inl e \<Rightarrow> Inl e
              | Inr query \<Rightarrow>
                  Inr (text_result (JSON_stringify (SkiRentals_json
                         (filter (search_filter_with lower query) store))))))
      else if nm = ''get_rental_recommendations'' then
        (case get_arg args ''need'' of
           Inl e \<Rightarrow> Inl e
         | Inr v \<Rightarrow>
             (case call_toLowerCase_with lower v of
                Inl e \<Rightarrow> Inl e
              | Inr need \<Rightarrow>
                  Inr (text_result (JSON_stringify (response_json (switch_need_with lower store need))))))
      else
        Inr (error_result (''Unknown tool: '' @ nm)))"

definition CallToolRequest_handler_with ::
  "(string \<Rightarrow> string) \<Rightarrow> SkiRental list \<Rightarrow> string \<Rightarrow> arguments \<Rightarrow> CallToolResult" where
  "CallToolRequest_handler_with lower store nm args =
     (case try_block_with lower store nm args of
        Inr result \<Rightarrow> result
      | Inl error \<Rightarrow> error_result (''Error: '' @ message error))"

subsection \<open>The catalog in memory\<close>

text \<open>
  In the running program the array and its records are objects in memory. The array
  holds references to the record objects; a record object holds its strings and
  references to its two arrays of strings; \<open>filter\<close> returns a new array of references
  to the same record objects, \<open>find\<close> returns a reference, and in the \<open>default\<close> case
  \<open>recommendations\<close> is the catalog array itself. Whether a call leaves the catalog as
  it found it is a statement about this memory.

  The heap is a list of cells and an address is an index. The cells are typed as the
  TypeScript of the source types the objects: \<open>string[]\<close>, \<open>SkiRental\<close>, \<open>SkiRental[]\<close>
  and the object \<open>{ explanation, recommendations }\<close>. A read returns \<open>None\<close> where the
  address holds no cell of the expected type.
\<close>

type_synonym addr = nat

record SkiRental_object =
  o_id :: string
  o_name :: string
  o_location :: string
  o_address :: string
  o_phone :: string
  o_website :: "string option"
  o_description :: string
  o_services :: addr
  o_rentalTypes :: addr
  o_priceRange :: string
  o_hours :: "string option"

datatype cell =
    StringArray "string list"
  | RentalObject SkiRental_object
  | RentalArray "addr list"
  | ResponseObject string addr

type_synonym heap = "cell list"

text \<open>An array or object literal allocates a new cell.\<close>

definition alloc :: "heap \<Rightarrow> cell \<Rightarrow> addr \<times> heap" where
  "alloc h c = (length h, h @ [c])"

definition cell_at :: "heap \<Rightarrow> addr \<Rightarrow> cell option" where
  "cell_at h a = (if a < length h then Some (h ! a) else None)"

definition read_strings :: "heap \<Rightarrow> addr \<Rightarrow> string list option" where
  "read_strings h a = (case cell_at h a of Some (StringArray ss) \<Rightarrow> Some ss | _ \<Rightarrow> None)"

definition read_array :: "heap \<Rightarrow> addr \<Rightarrow> addr list option" where
  "read_array h a = (case cell_at h a of Some (RentalArray as) \<Rightarrow> Some as | _ \<Rightarrow> None)"

text \<open>The properties of the record object at an address, those that are arrays read
  through their references.\<close>

definition read_rental :: "heap \<Rightarrow> addr \<Rightarrow> SkiRental option" where
  "read_rental h a =
     (case cell_at h a of
        Some (RentalObject ob) \<Rightarrow>
          (case read_strings h (o_services ob) of
             None \<Rightarrow> None
           | Some ss \<Rightarrow>
               (case read_strings h (o_rentalTypes ob) of
                  None \<Rightarrow> None
                | Some ts \<Rightarrow>
                    Some \<lparr> id' = o_id ob, name = o_name ob, location = o_location ob,
                           address = o_address ob, phone = o_phone ob, website = o_website ob,
                           description = o_description ob, services = ss, rentalTypes = ts,
                           priceRange = o_priceRange ob, hours = o_hours ob \<rparr>))
      | _ \<Rightarrow> None)"

fun read_all :: "heap \<Rightarrow> addr list \<Rightarrow> SkiRental list option" where
  "read_all h [] = Some []"
| "read_all h (a # as) =
     (case read_rental h a of
        None \<Rightarrow> None
      | Some r \<Rightarrow> (case read_all h as of None \<Rightarrow> None | Some rs \<Rightarrow> Some (r # rs)))"

text \<open>The records an array of references leads to, in the order of the array.\<close>

definition read_rentals :: "heap \<Rightarrow> addr \<Rightarrow> SkiRental list option" where
  "read_rentals h a = (case read_array h a of None \<Rightarrow> None | Some as \<Rightarrow> read_all h as)"

text \<open>The array literal of lines 26 to 104: each record literal allocates its two arrays
  and the object, and the array of the references is allocated last.\<close>

definition alloc_record :: "SkiRental \<Rightarrow> heap \<Rightarrow> addr \<times> heap" where
  "alloc_record r h =
     (let s = alloc h (StringArray (services r));
          t = alloc (snd s) (StringArray (rentalTypes r))
      in alloc (snd t)
           (RentalObject \<lparr> o_id = id' r, o_name = name r, o_location = location r,
                           o_address = address r, o_phone = phone r, o_website = website r,
                           o_description = description r, o_services = fst s,
                           o_rentalTypes = fst t, o_priceRange = priceRange r,
                           o_hours = hours r \<rparr>))"

fun alloc_records :: "SkiRental list \<Rightarrow> heap \<Rightarrow> addr list \<times> heap" where
  "alloc_records [] h = ([], h)"
| "alloc_records (r # rs) h =
     (let a = alloc_record r h;
          rest = alloc_records rs (snd a)
      in (fst a # fst rest, snd rest))"

definition array_literal :: "SkiRental list \<Rightarrow> heap \<Rightarrow> addr \<times> heap" where
  "array_literal rs h = (let elements = alloc_records rs h in alloc (snd elements) (RentalArray (fst elements)))"

text \<open>The module as loaded: the address bound to \<open>skiRentals\<close>, and the heap.\<close>

definition module_init :: "addr \<times> heap" where
  "module_init = array_literal skiRentals []"

text \<open>\<open>Array.prototype.filter\<close> on an array of records: the elements are visited in
  order, the predicate is called on each, and the references of those it accepts go
  into the new array.\<close>

fun filter_refs :: "(SkiRental \<Rightarrow> bool) \<Rightarrow> heap \<Rightarrow> addr list \<Rightarrow> addr list option" where
  "filter_refs p h [] = Some []"
| "filter_refs p h (a # as) =
     (case read_rental h a of
        None \<Rightarrow> None
      | Some r \<Rightarrow>
          (case filter_refs p h as of
             None \<Rightarrow> None
           | Some kept \<Rightarrow> Some (if p r then a # kept else kept)))"

definition Array_filter :: "(SkiRental \<Rightarrow> bool) \<Rightarrow> addr \<Rightarrow> heap \<Rightarrow> (addr \<times> heap) option" where
  "Array_filter p a h =
     (case read_array h a of
        None \<Rightarrow> None
      | Some as \<Rightarrow>
          (case filter_refs p h as of
             None \<Rightarrow> None
           | Some kept \<Rightarrow> Some (alloc h (RentalArray kept))))"

text \<open>\<open>Array.prototype.find\<close>: the reference of the first element the predicate
  accepts, or \<open>undefined\<close> (the inner \<open>None\<close>).\<close>

fun find_ref :: "(SkiRental \<Rightarrow> bool) \<Rightarrow> heap \<Rightarrow> addr list \<Rightarrow> addr option option" where
  "find_ref p h [] = Some None"
| "find_ref p h (a # as) =
     (case read_rental h a of
        None \<Rightarrow> None
      | Some r \<Rightarrow> if p r then Some (Some a) else find_ref p h as)"

definition Array_find :: "(SkiRental \<Rightarrow> bool) \<Rightarrow> addr \<Rightarrow> heap \<Rightarrow> addr option option" where
  "Array_find p a h = (case read_array h a of None \<Rightarrow> None | Some as \<Rightarrow> find_ref p h as)"

text \<open>\<open>JSON.stringify\<close> of a record, of an array of records and of the object
  \<open>{ explanation, recommendations }\<close>, each read from the heap at the time of the call.\<close>

definition stringify_rental :: "heap \<Rightarrow> addr \<Rightarrow> string option" where
  "stringify_rental h a = map_option (\<lambda>r. JSON_stringify (SkiRental_json r)) (read_rental h a)"

definition stringify_rentals :: "heap \<Rightarrow> addr \<Rightarrow> string option" where
  "stringify_rentals h a = map_option (\<lambda>rs. JSON_stringify (SkiRentals_json rs)) (read_rentals h a)"

definition stringify_response :: "heap \<Rightarrow> addr \<Rightarrow> string option" where
  "stringify_response h a =
     (case cell_at h a of
        Some (ResponseObject explanation recommendations) \<Rightarrow>
          map_option (\<lambda>rs. JSON_stringify (response_json (rs, explanation)))
            (read_rentals h recommendations)
      | _ \<Rightarrow> None)"

text \<open>The \<open>switch\<close> in memory: the reference left in \<open>recommendations\<close>, the explanation,
  and the heap after the \<open>filter\<close> call of the case.\<close>

definition switch_need_in_memory ::
  "(string \<Rightarrow> string) \<Rightarrow> addr \<Rightarrow> string \<Rightarrow> heap \<Rightarrow> ((addr \<times> string) \<times> heap) option" where
  "switch_need_in_memory lower skiRentals_ref need h =
     (case fst (switch_case_with lower need) of
        None \<Rightarrow> Some ((skiRentals_ref, snd (switch_case_with lower need)), h)
      | Some p \<Rightarrow>
          (case Array_filter p skiRentals_ref h of
             None \<Rightarrow> None
           | Some filtered \<Rightarrow>
               Some ((fst filtered, snd (switch_case_with lower need)), snd filtered)))"

text \<open>The \<open>try\<close> block in memory. The result is the thrown error or the returned object
  (a value: it is handed to the transport), with the heap the block leaves behind.\<close>

definition try_block_in_memory ::
  "(string \<Rightarrow> string) \<Rightarrow> addr \<Rightarrow> string \<Rightarrow> arguments \<Rightarrow> heap
     \<Rightarrow> ((js_error + CallToolResult) \<times> heap) option" where
  "try_block_in_memory lower skiRentals_ref nm args h =
     (if nm = ''list_ski_rentals'' then
        map_option (\<lambda>t. (Inr (text_result t), h)) (stringify_rentals h skiRentals_ref)
      else if nm = ''get_rental_details'' then
        (case get_arg args ''rental_id'' of
           Inl e \<Rightarrow> Some (Inl e, h)
         | Inr rentalId \<Rightarrow>
             (case Array_find (\<lambda>r. Some (id' r) = rentalId) skiRentals_ref h of
                None \<Rightarrow> None
              | Some None \<Rightarrow>
                  Some (Inr (error_result (''Ski rental shop with ID '' @ dquote
                                           @ template_value rentalId @ dquote @ '' not found.'')), h)
              | Some (Some rental) \<Rightarrow>
                  map_option (\<lambda>t. (Inr (text_result t), h)) (stringify_rental h rental)))
      else if nm = ''search_rentals'' then
        (case get_arg args ''query'' of
           Inl e \<Rightarrow> Some (Inl e, h)
         | Inr v \<Rightarrow>
             (case call_toLowerCase_with lower v of
                Inl e \<Rightarrow> Some (Inl e, h)
              | Inr query \<Rightarrow>
                  (case Array_filter (search_filter_with lower query) skiRentals_ref h of
                     None \<Rightarrow> None
                   | Some results \<Rightarrow>
                       map_option (\<lambda>t. (Inr (text_result t), snd results))
                         (stringify_rentals (snd results) (fst results)))))
      else if nm = ''get_rental_recommendations'' then
        (case get_arg args ''need'' of
           Inl e \<Rightarrow> Some (Inl e, h)
         | Inr v \<Rightarrow>
             (case call_toLowerCase_with lower v of
                Inl e \<Rightarrow> Some (Inl e, h)
              | Inr need \<Rightarrow>
                  (case switch_need_in_memory lower skiRentals_ref need h of
                     None \<Rightarrow> None
                   | Some switched \<Rightarrow>
                       (let response = alloc (snd switched)
                              (ResponseObject (snd (fst switched)) (fst (fst switched)))
                        in map_option (\<lambda>t. (Inr (text_result t), snd response))
                             (stringify_response (snd response) (fst response))))))
      else
        Some (Inr (error_result (''Unknown tool: '' @ nm)), h))"

definition handler_in_memory ::
  "(string \<Rightarrow> string) \<Rightarrow> addr \<Rightarrow> string \<Rightarrow> arguments \<Rightarrow> heap \<Rightarrow> (CallToolResult \<times> heap) option" where
  "handler_in_memory lower skiRentals_ref nm args h =
     map_option
       (\<lambda>outcome. (case fst outcome of
                      Inr result \<Rightarrow> result
                    | Inl error \<Rightarrow> error_result (''Error: '' @ message error),
                    snd outcome))
       (try_block_in_memory lower skiRentals_ref nm args h)"

text \<open>The server answers one call after the other; each call starts on the heap the
  call before it left behind.\<close>

fun serve :: "(string \<Rightarrow> string) \<Rightarrow> addr \<Rightarrow> (string \<times> arguments) list \<Rightarrow> heap
                \<Rightarrow> (CallToolResult list \<times> heap) option" where
  "serve lower skiRentals_ref [] h = Some ([], h)"
| "serve lower skiRentals_ref (call # calls) h =
     (case handler_in_memory lower skiRentals_ref (fst call) (snd call) h of
        None \<Rightarrow> None
      | Some answered \<Rightarrow>
          (case serve lower skiRentals_ref calls (snd answered) of
             None \<Rightarrow> None
           | Some rest \<Rightarrow> Some (fst answered # fst rest, snd rest)))"

subsection \<open>Notions used to state the properties\<close>

text \<open>The \<open>case\<close> labels of the \<open>switch\<close>, in the order of the source.\<close>

definition recognized_needs :: "string list" where
  "recognized_needs =
     [''beginner'', ''expert'', ''advanced'', ''backcountry'', ''touring'', ''delivery'',
      ''budget'', ''affordable'', ''premium'', ''luxury'', ''family'', ''kids'']"

text \<open>
  The search criterion in the words of the specification: the lower-cased query is a
  substring of the lower-cased name, location or description, or of some lower-cased
  element of the services or of the rental types. \<^const>\<open>sublist\<close> is the library's
  contiguous sublist relation, and \<open>lower\<close> the lower-casing.
\<close>

definition spec_search_match :: "(string \<Rightarrow> string) \<Rightarrow> string \<Rightarrow> SkiRental \<Rightarrow> bool" where
  "spec_search_match lower q r =
     (sublist (lower q) (lower (name r))
      \<or> sublist (lower q) (lower (location r))
      \<or> sublist (lower q) (lower (description r))
      \<or> (\<exists>s \<in> set (services r). sublist (lower q) (lower s))
      \<or> (\<exists>t \<in> set (rentalTypes r). sublist (lower q) (lower t)))"

text \<open>The value of a property of a serialised object.\<close>

fun json_field :: "json \<Rightarrow> string \<Rightarrow> json option" where
  "json_field (JObject ps) k = map_of ps k"
| "json_field (JString s) k = None"
| "json_field (JArray xs) k = None"

section \<open>Properties\<close>

subsection \<open>Library functions\<close>



text \<open>Lower-casing a character literal, by its bits.\<close>

lemma toLowerCase_char_Char:
  "toLowerCase_char (Char b0 b1 b2 b3 b4 b5 b6 b7) =
     (if b6 \<and> \<not> b5 \<and> \<not> b7 \<and> (b0 \<or> b1 \<or> b2 \<or> b3 \<or> b4) \<and> \<not> (b4 \<and> b3 \<and> (b2 \<or> (b1 \<and> b0)))
      then Char b0 b1 b2 b3 b4 True b6 b7 else Char b0 b1 b2 b3 b4 b5 b6 b7)"
  by (cases b0; cases b1; cases b2; cases b3; cases b4; cases b5; cases b6; cases b7;
      simp add: toLowerCase_char_def char_of_def bit_iff_odd)

lemma includes_str_sublist: "includes_str s q \<longleftrightarrow> sublist q s"
  by (induction s) (simp_all add: sublist_Cons_right)

lemma includes_str_empty: "includes_str s []"
  by (simp add: includes_str_sublist)

lemma search_filter_empty: "search_filter [] r"
  by (simp add: search_filter_def includes_str_empty)

text \<open>The serialisation at work: two levels of indentation.\<close>

lemma JSON_stringify_nested:
  "JSON_stringify (JObject [(''services'', JArray [JString ''Waxing'', JString ''Tune-ups''])]) =
     ''{'' @ newline
     @ ''  '' @ dquote @ ''services'' @ dquote @ '': ['' @ newline
     @ ''    '' @ dquote @ ''Waxing'' @ dquote @ '','' @ newline
     @ ''    '' @ dquote @ ''Tune-ups'' @ dquote @ newline
     @ ''  ]'' @ newline
     @ ''}''"
  by (simp add: JSON_stringify_def QuoteJSONString_def quote_char_def gap_def newline_def
        dquote_def)

subsection \<open>The branches of the handler\<close>

lemma handler_list:
  "CallToolRequest_handler store ''list_ski_rentals'' args =
     text_result (JSON_stringify (SkiRentals_json store))"
  by (simp add: CallToolRequest_handler_def try_block_def)

lemma handler_details:
  assumes "bag ''rental_id'' = Some rid"
  shows "CallToolRequest_handler store ''get_rental_details'' (Some bag) =
     (case List.find (\<lambda>r. id' r = rid) store of
        None \<Rightarrow> error_result (''Ski rental shop with ID '' @ dquote @ rid @ dquote @ '' not found.'')
      | Some rental \<Rightarrow> text_result (JSON_stringify (SkiRental_json rental)))"
  using assms
  by (simp add: CallToolRequest_handler_def try_block_def get_arg_def template_value_def
           split: option.splits)

lemma handler_search:
  assumes "bag ''query'' = Some q"
  shows "CallToolRequest_handler store ''search_rentals'' (Some bag) =
     text_result (JSON_stringify (SkiRentals_json (filter (search_filter (toLowerCase q)) store)))"
  using assms
  by (simp add: CallToolRequest_handler_def try_block_def get_arg_def call_toLowerCase_def)

lemma handler_recommend:
  assumes "bag ''need'' = Some n"
  shows "CallToolRequest_handler store ''get_rental_recommendations'' (Some bag) =
     text_result (JSON_stringify (response_json (switch_need store (toLowerCase n))))"
  using assms
  by (simp add: CallToolRequest_handler_def try_block_def get_arg_def call_toLowerCase_def)


lemma find_id_Some:
  assumes "rid \<in> id' ` set store"
  shows "\<exists>rental. List.find (\<lambda>r. id' r = rid) store = Some rental \<and> rental \<in> set store \<and> id' rental = rid"
  using assms by (induction store) auto

lemma find_id_None:
  assumes "rid \<notin> id' ` set store"
  shows "List.find (\<lambda>r. id' r = rid) store = None"
  using assms by (induction store) auto

lemma SkiRental_json_id: "json_field (SkiRental_json r) ''id'' = Some (JString (id' r))"
  by (simp add: SkiRental_json_def)

lemma skiRentals_ids:
  "map id' skiRentals =
     [''telluride-sports'', ''bootdoctors'', ''jagged-edge'', ''paragon-ski-snowboard'',
      ''telluride-ski-rental-delivery'', ''mountain-sports-telluride'']"
  by (simp add: skiRentals_def)



subsection \<open>The handler on ASCII text\<close>

lemma switch_need_with_toLowerCase: "switch_need_with toLowerCase store need = switch_need store need"
  by (simp add: switch_need_with_def switch_case_with_def switch_need_def)

lemma search_filter_with_toLowerCase: "search_filter_with toLowerCase = search_filter"
  by (rule ext, rule ext) (simp add: search_filter_with_def search_filter_def)

lemma call_toLowerCase_with_toLowerCase: "call_toLowerCase_with toLowerCase = call_toLowerCase"
  by (rule ext) (simp add: call_toLowerCase_with_def call_toLowerCase_def)

lemma try_block_with_toLowerCase: "try_block_with toLowerCase store nm args = try_block store nm args"
  by (simp add: try_block_with_def try_block_def switch_need_with_toLowerCase
        search_filter_with_toLowerCase call_toLowerCase_with_toLowerCase
      split: sum.splits)

lemma handler_with_toLowerCase:
  "CallToolRequest_handler_with toLowerCase store nm args = CallToolRequest_handler store nm args"
  by (simp add: CallToolRequest_handler_with_def CallToolRequest_handler_def
        try_block_with_toLowerCase)

subsection \<open>Searching\<close>

lemma search_filter_with_spec:
  "search_filter_with lower (lower q) r = spec_search_match lower q r"
  by (simp add: search_filter_with_def spec_search_match_def includes_str_sublist list_ex_iff)

lemma filter_search_spec:
  "filter (search_filter_with lower (lower q)) store = filter (spec_search_match lower q) store"
  by (rule filter_cong) (simp_all add: search_filter_with_spec)

lemma handler_with_search:
  assumes "bag ''query'' = Some q"
  shows "CallToolRequest_handler_with lower store ''search_rentals'' (Some bag) =
     text_result (JSON_stringify (SkiRentals_json (filter (search_filter_with lower (lower q)) store)))"
  using assms
  by (simp add: CallToolRequest_handler_with_def try_block_with_def get_arg_def
        call_toLowerCase_with_def)

text \<open>
  C1. Whatever the lower-casing \<open>lower\<close> of the engine is, for every query \<open>q\<close>
  \<open>search_rentals\<close> answers without error flag with the serialisation of exactly the
  records of the store, in store order, for which \<open>lower q\<close> is a substring of the
  lower-cased name, location or description or of a lower-cased element of the services
  or rental types; when there is none, the text is the empty array.
\<close>

theorem search_rentals_returns_matches:
  assumes "bag ''query'' = Some q"
  shows "CallToolRequest_handler_with lower store ''search_rentals'' (Some bag) =
           \<lparr> content = [\<lparr> block_type = ''text'',
                         block_text = JSON_stringify (JArray (map SkiRental_json
                                        (filter (spec_search_match lower q) store))) \<rparr>],
             isError = None \<rparr>
         \<and> (filter (spec_search_match lower q) store = [] \<longrightarrow>
              CallToolRequest_handler_with lower store ''search_rentals'' (Some bag) =
                \<lparr> content = [\<lparr> block_type = ''text'', block_text = ''[]'' \<rparr>], isError = None \<rparr>)"
proof -
  have answer: "CallToolRequest_handler_with lower store ''search_rentals'' (Some bag) =
      text_result (JSON_stringify (SkiRentals_json (filter (spec_search_match lower q) store)))"
    using assms handler_with_search [of bag q lower store] by (simp add: filter_search_spec)
  have empty: "JSON_stringify (SkiRentals_json []) = ''[]''"
    by (simp add: JSON_stringify_def SkiRentals_json_def)
  show ?thesis
    using answer empty by (auto simp add: text_result_def SkiRentals_json_def)
qed

lemma skiRentals_search_snowshoes:
  "filter (spec_search_match toLowerCase ''Snowshoes'') skiRentals = []"
proof -
  have "filter (search_filter_with toLowerCase (toLowerCase ''Snowshoes'')) skiRentals = []"
    by (simp add: search_filter_with_def skiRentals_def toLowerCase_def toLowerCase_char_Char)
  then show ?thesis by (simp only: filter_search_spec)
qed

lemma skiRentals_search_backcountry:
  "map id' (filter (spec_search_match toLowerCase ''BACKCOUNTRY'') skiRentals) = [''jagged-edge'']"
proof -
  have "map id' (filter (search_filter_with toLowerCase (toLowerCase ''BACKCOUNTRY'')) skiRentals)
      = [''jagged-edge'']"
    by (simp add: search_filter_with_def skiRentals_def toLowerCase_def toLowerCase_char_Char)
  then show ?thesis by (simp only: filter_search_spec)
qed

theorem search_rentals_returns_matches_witness:
  "CallToolRequest_handler skiRentals ''search_rentals'' (Some [''query'' \<mapsto> ''Snowshoes'']) =
     \<lparr> content = [\<lparr> block_type = ''text'', block_text = ''[]'' \<rparr>], isError = None \<rparr>
   \<and> CallToolRequest_handler skiRentals ''search_rentals'' (Some [''query'' \<mapsto> ''BACKCOUNTRY'']) =
     \<lparr> content = [\<lparr> block_type = ''text'',
                   block_text = JSON_stringify (JArray (map SkiRental_json
                                  (filter (spec_search_match toLowerCase ''BACKCOUNTRY'') skiRentals))) \<rparr>],
       isError = None \<rparr>
   \<and> map id' (filter (spec_search_match toLowerCase ''BACKCOUNTRY'') skiRentals) = [''jagged-edge'']"
proof -
  have q1: "[''query'' \<mapsto> ''Snowshoes''] ''query'' = Some ''Snowshoes''" by simp
  have q2: "[''query'' \<mapsto> ''BACKCOUNTRY''] ''query'' = Some ''BACKCOUNTRY''" by simp
  show ?thesis
    using q1 q2
          search_rentals_returns_matches
            [of "[''query'' \<mapsto> ''Snowshoes'']" "''Snowshoes''" toLowerCase skiRentals]
          search_rentals_returns_matches
            [of "[''query'' \<mapsto> ''BACKCOUNTRY'']" "''BACKCOUNTRY''" toLowerCase skiRentals]
          skiRentals_search_snowshoes skiRentals_search_backcountry
    unfolding handler_with_toLowerCase
    by blast
qed

subsection \<open>Looking a shop up\<close>

text \<open>
  C2. For every id of a record of the store, \<open>get_rental_details\<close> answers without error
  flag with the serialisation of a record of the store whose \<open>id\<close> property is the
  requested id. The lookup compares the id as it is: the answer carries no error flag
  exactly when the requested string is the id of a record.
\<close>

theorem get_rental_details_returns_record:
  assumes "bag ''rental_id'' = Some rid"
  shows "(rid \<in> id' ` set store \<longrightarrow>
            (\<exists>rental. rental \<in> set store \<and> id' rental = rid
               \<and> CallToolRequest_handler store ''get_rental_details'' (Some bag) =
                   \<lparr> content = [\<lparr> block_type = ''text'',
                                 block_text = JSON_stringify (SkiRental_json rental) \<rparr>],
                     isError = None \<rparr>
               \<and> json_field (SkiRental_json rental) ''id'' = Some (JString rid)))
         \<and> (isError (CallToolRequest_handler store ''get_rental_details'' (Some bag)) = None
              \<longleftrightarrow> rid \<in> id' ` set store)"
proof -
  have found: "\<exists>rental. rental \<in> set store \<and> id' rental = rid
       \<and> CallToolRequest_handler store ''get_rental_details'' (Some bag) =
           text_result (JSON_stringify (SkiRental_json rental))
       \<and> json_field (SkiRental_json rental) ''id'' = Some (JString rid)"
    if mem: "rid \<in> id' ` set store"
  proof -
    obtain rental where r: "List.find (\<lambda>r. id' r = rid) store = Some rental"
        "rental \<in> set store" "id' rental = rid"
      using find_id_Some [OF mem] by blast
    have "CallToolRequest_handler store ''get_rental_details'' (Some bag) =
        text_result (JSON_stringify (SkiRental_json rental))"
      using assms handler_details [of bag rid store] r(1) by simp
    then show ?thesis
      using r(2,3) SkiRental_json_id [of rental] by auto
  qed
  have missed: "isError (CallToolRequest_handler store ''get_rental_details'' (Some bag)) = Some True"
    if "rid \<notin> id' ` set store"
    using assms handler_details [of bag rid store] find_id_None [OF that]
    by (simp add: error_result_def)
  show ?thesis
    using found missed by (fastforce simp add: text_result_def)
qed

theorem get_rental_details_returns_record_witness:
  "isError (CallToolRequest_handler skiRentals ''get_rental_details''
              (Some [''rental_id'' \<mapsto> ''bootdoctors''])) = None
   \<and> CallToolRequest_handler skiRentals ''get_rental_details'' (Some [''rental_id'' \<mapsto> ''bootdoctors'']) =
       text_result (JSON_stringify (SkiRental_json (skiRentals ! 1)))
   \<and> json_field (SkiRental_json (skiRentals ! 1)) ''id'' = Some (JString ''bootdoctors'')
   \<and> isError (CallToolRequest_handler skiRentals ''get_rental_details''
              (Some [''rental_id'' \<mapsto> ''Bootdoctors''])) \<noteq> None"
proof -
  have a1: "[''rental_id'' \<mapsto> ''bootdoctors''] ''rental_id'' = Some ''bootdoctors''" by simp
  have a2: "[''rental_id'' \<mapsto> ''Bootdoctors''] ''rental_id'' = Some ''Bootdoctors''" by simp
  have ids: "id' ` set skiRentals = set (map id' skiRentals)" by simp
  have m1: "''bootdoctors'' \<in> id' ` set skiRentals"
    unfolding ids skiRentals_ids by simp
  have m2: "''Bootdoctors'' \<notin> id' ` set skiRentals"
    unfolding ids skiRentals_ids by simp
  have flag1: "isError (CallToolRequest_handler skiRentals ''get_rental_details''
              (Some [''rental_id'' \<mapsto> ''bootdoctors''])) = None"
    using a1 m1
      get_rental_details_returns_record [of "[''rental_id'' \<mapsto> ''bootdoctors'']" "''bootdoctors''" skiRentals]
    by blast
  have flag2: "isError (CallToolRequest_handler skiRentals ''get_rental_details''
              (Some [''rental_id'' \<mapsto> ''Bootdoctors''])) \<noteq> None"
    using a2 m2
      get_rental_details_returns_record [of "[''rental_id'' \<mapsto> ''Bootdoctors'']" "''Bootdoctors''" skiRentals]
    by blast
  have rec: "CallToolRequest_handler skiRentals ''get_rental_details'' (Some [''rental_id'' \<mapsto> ''bootdoctors'']) =
       text_result (JSON_stringify (SkiRental_json (skiRentals ! 1)))"
    using a1 handler_details [of "[''rental_id'' \<mapsto> ''bootdoctors'']" "''bootdoctors''" skiRentals]
    by (simp add: skiRentals_def)
  have fld: "json_field (SkiRental_json (skiRentals ! 1)) ''id'' = Some (JString ''bootdoctors'')"
    by (simp add: SkiRental_json_id skiRentals_def)
  show ?thesis using flag1 flag2 rec fld by simp
qed

text \<open>
  C3, as the specification words it (the text \<open>Record with id "<id>" not found.\<close>), fails:
  for the id \<open>does-not-exist\<close>, which no record has, the answer is not that text.
\<close>

theorem get_rental_details_not_found_counterexample:
  "''does-not-exist'' \<notin> id' ` set skiRentals
   \<and> CallToolRequest_handler skiRentals ''get_rental_details'' (Some [''rental_id'' \<mapsto> ''does-not-exist''])
       \<noteq> \<lparr> content = [\<lparr> block_type = ''text'',
                        block_text = ''Record with id '' @ dquote @ ''does-not-exist'' @ dquote
                                     @ '' not found.'' \<rparr>],
            isError = Some True \<rparr>
   \<and> block_text (hd (content (CallToolRequest_handler skiRentals ''get_rental_details''
                                (Some [''rental_id'' \<mapsto> ''does-not-exist'']))))
       = ''Ski rental shop with ID '' @ dquote @ ''does-not-exist'' @ dquote @ '' not found.''"
proof -
  have a: "[''rental_id'' \<mapsto> ''does-not-exist''] ''rental_id'' = Some ''does-not-exist''" by simp
  have ids: "id' ` set skiRentals = set (map id' skiRentals)" by simp
  have m: "''does-not-exist'' \<notin> id' ` set skiRentals"
    unfolding ids skiRentals_ids by simp
  have "CallToolRequest_handler skiRentals ''get_rental_details'' (Some [''rental_id'' \<mapsto> ''does-not-exist''])
      = error_result (''Ski rental shop with ID '' @ dquote @ ''does-not-exist'' @ dquote @ '' not found.'')"
    using a handler_details [of "[''rental_id'' \<mapsto> ''does-not-exist'']" "''does-not-exist''" skiRentals]
      find_id_None [OF m]
    by simp
  then show ?thesis
    using m by (simp add: error_result_def dquote_def)
qed

text \<open>
  C3, amended. For every id string that no record of the store has, the \<open>try\<close> block of
  \<open>get_rental_details\<close> returns (nothing is thrown) the error-flagged answer whose text is
  \<open>Ski rental shop with ID "<id>" not found.\<close>, with the requested id in place of \<open><id>\<close>.
\<close>

theorem get_rental_details_not_found:
  assumes "bag ''rental_id'' = Some rid" and "rid \<notin> id' ` set store"
  shows "CallToolRequest_handler store ''get_rental_details'' (Some bag) =
           \<lparr> content = [\<lparr> block_type = ''text'',
                         block_text = ''Ski rental shop with ID '' @ dquote @ rid @ dquote
                                      @ '' not found.'' \<rparr>],
             isError = Some True \<rparr>
         \<and> try_block store ''get_rental_details'' (Some bag) =
             Inr (CallToolRequest_handler store ''get_rental_details'' (Some bag))"
proof -
  have none: "List.find (\<lambda>r. Some (id' r) = Some rid) store = None"
    using find_id_None [OF assms(2)] by simp
  have body: "try_block store ''get_rental_details'' (Some bag) =
      Inr (error_result (''Ski rental shop with ID '' @ dquote @ rid @ dquote @ '' not found.''))"
    using assms(1) none by (simp add: try_block_def get_arg_def template_value_def)
  show ?thesis
    using body by (simp add: CallToolRequest_handler_def error_result_def)
qed

theorem get_rental_details_not_found_witness:
  "CallToolRequest_handler skiRentals ''get_rental_details'' (Some [''rental_id'' \<mapsto> ''does-not-exist'']) =
     \<lparr> content = [\<lparr> block_type = ''text'',
                   block_text = ''Ski rental shop with ID '' @ dquote @ ''does-not-exist'' @ dquote
                                @ '' not found.'' \<rparr>],
       isError = Some True \<rparr>"
proof -
  have a: "[''rental_id'' \<mapsto> ''does-not-exist''] ''rental_id'' = Some ''does-not-exist''" by simp
  have ids: "id' ` set skiRentals = set (map id' skiRentals)" by simp
  have m: "''does-not-exist'' \<notin> id' ` set skiRentals"
    unfolding ids skiRentals_ids by simp
  show ?thesis
    using a m
      get_rental_details_not_found [of "[''rental_id'' \<mapsto> ''does-not-exist'']" "''does-not-exist''" skiRentals]
    by blast
qed

subsection \<open>Errors stay inside the call\<close>

lemma handler_unknown_tool:
  assumes "nm \<notin> set (map tool_name tools)"
  shows "CallToolRequest_handler store nm args = error_result (''Unknown tool: '' @ nm)"
  using assms by (simp add: CallToolRequest_handler_def try_block_def tools_def)

lemma handler_caught:
  assumes "try_block store nm args = Inl e"
  shows "CallToolRequest_handler store nm args = error_result (''Error: '' @ message e)"
  using assms by (simp add: CallToolRequest_handler_def)

lemma handler_no_bag:
  assumes "nm = ''get_rental_details'' \<and> k = ''rental_id''
           \<or> nm = ''search_rentals'' \<and> k = ''query''
           \<or> nm = ''get_rental_recommendations'' \<and> k = ''need''"
  shows "CallToolRequest_handler store nm None = error_result (''Error: '' @ cannot_read_undefined k)"
  using assms by (auto simp add: CallToolRequest_handler_def try_block_def get_arg_def)

lemma handler_details_no_id:
  assumes "bag ''rental_id'' = None"
  shows "CallToolRequest_handler store ''get_rental_details'' (Some bag) =
     error_result (''Ski rental shop with ID '' @ dquote @ ''undefined'' @ dquote @ '' not found.'')"
proof -
  have "List.find (\<lambda>r. Some (id' r) = None) store = None"
    by (induction store) simp_all
  then show ?thesis
    using assms
    by (simp add: CallToolRequest_handler_def try_block_def get_arg_def template_value_def)
qed

lemma handler_no_string:
  assumes "nm = ''search_rentals'' \<and> k = ''query'' \<or> nm = ''get_rental_recommendations'' \<and> k = ''need''"
    and "bag k = None"
  shows "CallToolRequest_handler store nm (Some bag) =
     error_result (''Error: '' @ cannot_read_undefined ''toLowerCase'')"
  using assms
  by (auto simp add: CallToolRequest_handler_def try_block_def get_arg_def call_toLowerCase_def)

lemma required_of_tools:
  assumes "t \<in> set tools" and "k \<in> set (required t)"
  shows "tool_name t = ''get_rental_details'' \<and> k = ''rental_id''
         \<or> tool_name t = ''search_rentals'' \<and> k = ''query''
         \<or> tool_name t = ''get_rental_recommendations'' \<and> k = ''need''"
  using assms by (auto simp add: tools_def)

text \<open>
  C4. A call of a name that is not in the registry is answered with the error-flagged
  text \<open>Unknown tool: <name>\<close>. A call of a registered tool that omits a required
  argument (no argument bag at all, or a bag without the key) is answered with an
  error-flagged text: the not-found message for the id \<open>undefined\<close>, or \<open>Error:\<close> followed
  by the message of the TypeError that the read raised. Whatever the \<open>try\<close> block throws
  becomes an error-flagged answer \<open>Error: <message>\<close>; the handler returns an answer for
  every call.
\<close>

theorem dispatcher_contains_errors:
  "(nm \<notin> set (map tool_name tools) \<longrightarrow>
      CallToolRequest_handler store nm args =
        \<lparr> content = [\<lparr> block_type = ''text'', block_text = ''Unknown tool: '' @ nm \<rparr>],
          isError = Some True \<rparr>)
   \<and> (\<forall>t \<in> set tools. \<forall>k \<in> set (required t).
        (args = None \<or> (\<exists>bag. args = Some bag \<and> bag k = None)) \<longrightarrow>
        (\<exists>msg. CallToolRequest_handler store (tool_name t) args =
                 \<lparr> content = [\<lparr> block_type = ''text'', block_text = msg \<rparr>], isError = Some True \<rparr>
             \<and> (msg = ''Ski rental shop with ID '' @ dquote @ ''undefined'' @ dquote @ '' not found.''
                  \<or> msg = ''Error: '' @ cannot_read_undefined k
                  \<or> msg = ''Error: '' @ cannot_read_undefined ''toLowerCase'')))
   \<and> (\<forall>e. try_block store nm args = Inl e \<longrightarrow>
        CallToolRequest_handler store nm args =
          \<lparr> content = [\<lparr> block_type = ''text'', block_text = ''Error: '' @ message e \<rparr>],
            isError = Some True \<rparr>)"
proof (intro conjI ballI impI allI)
  assume "nm \<notin> set (map tool_name tools)"
  then show "CallToolRequest_handler store nm args =
      \<lparr> content = [\<lparr> block_type = ''text'', block_text = ''Unknown tool: '' @ nm \<rparr>],
        isError = Some True \<rparr>"
    using handler_unknown_tool [of nm store args] by (simp add: error_result_def)
next
  fix t k
  assume t: "t \<in> set tools" and k: "k \<in> set (required t)"
    and omitted: "args = None \<or> (\<exists>bag. args = Some bag \<and> bag k = None)"
  let ?goal = "\<exists>msg. CallToolRequest_handler store (tool_name t) args =
                 \<lparr> content = [\<lparr> block_type = ''text'', block_text = msg \<rparr>], isError = Some True \<rparr>
             \<and> (msg = ''Ski rental shop with ID '' @ dquote @ ''undefined'' @ dquote @ '' not found.''
                  \<or> msg = ''Error: '' @ cannot_read_undefined k
                  \<or> msg = ''Error: '' @ cannot_read_undefined ''toLowerCase'')"
  note which = required_of_tools [OF t k]
  show ?goal
  proof (cases args)
    case None
    then have "CallToolRequest_handler store (tool_name t) args =
        error_result (''Error: '' @ cannot_read_undefined k)"
      using which handler_no_bag [of "tool_name t" k store] by simp
    then show ?thesis by (simp add: error_result_def)
  next
    case (Some bag)
    then have absent: "bag k = None" using omitted by simp
    show ?thesis
    proof (cases "tool_name t = ''get_rental_details''")
      case True
      then have "k = ''rental_id''" using which by auto
      then have "CallToolRequest_handler store (tool_name t) args =
          error_result (''Ski rental shop with ID '' @ dquote @ ''undefined'' @ dquote @ '' not found.'')"
        using True Some absent handler_details_no_id [of bag store] by simp
      then show ?thesis by (simp add: error_result_def)
    next
      case False
      then have "tool_name t = ''search_rentals'' \<and> k = ''query''
          \<or> tool_name t = ''get_rental_recommendations'' \<and> k = ''need''"
        using which by auto
      then have "CallToolRequest_handler store (tool_name t) args =
          error_result (''Error: '' @ cannot_read_undefined ''toLowerCase'')"
        using Some absent handler_no_string [of "tool_name t" k bag store] by simp
      then show ?thesis by (simp add: error_result_def)
    qed
  qed
next
  fix e
  assume "try_block store nm args = Inl e"
  then show "CallToolRequest_handler store nm args =
      \<lparr> content = [\<lparr> block_type = ''text'', block_text = ''Error: '' @ message e \<rparr>],
        isError = Some True \<rparr>"
    using handler_caught [of store nm args e] by (simp add: error_result_def)
qed

theorem dispatcher_contains_errors_witness:
  "CallToolRequest_handler skiRentals ''book_rental'' (Some [''rental_id'' \<mapsto> ''bootdoctors'']) =
     \<lparr> content = [\<lparr> block_type = ''text'', block_text = ''Unknown tool: book_rental'' \<rparr>],
       isError = Some True \<rparr>
   \<and> isError (CallToolRequest_handler skiRentals ''search_rentals'' (Some Map.empty)) = Some True
   \<and> isError (CallToolRequest_handler skiRentals ''get_rental_details'' (Some Map.empty)) = Some True
   \<and> try_block skiRentals ''get_rental_recommendations'' None =
       Inl (TypeError (cannot_read_undefined ''need''))
   \<and> CallToolRequest_handler skiRentals ''get_rental_recommendations'' None =
     \<lparr> content = [\<lparr> block_type = ''text'',
                   block_text = ''Error: '' @ cannot_read_undefined ''need'' \<rparr>],
       isError = Some True \<rparr>"
proof -
  note inst1 = dispatcher_contains_errors
    [of "''book_rental''" skiRentals "Some [''rental_id'' \<mapsto> ''bootdoctors'']"]
  note inst2 = dispatcher_contains_errors [of "''search_rentals''" skiRentals "Some Map.empty"]
  note inst3 = dispatcher_contains_errors [of "''get_rental_details''" skiRentals "Some Map.empty"]
  note inst4 = dispatcher_contains_errors [of "''get_rental_recommendations''" skiRentals None]
  have unknown: "''book_rental'' \<notin> set (map tool_name tools)"
    by (simp add: tools_def)
  have c1: "CallToolRequest_handler skiRentals ''book_rental'' (Some [''rental_id'' \<mapsto> ''bootdoctors'']) =
     \<lparr> content = [\<lparr> block_type = ''text'', block_text = ''Unknown tool: book_rental'' \<rparr>],
       isError = Some True \<rparr>"
    using inst1 unknown by simp
  have t2: "tools ! 2 \<in> set tools" "''query'' \<in> set (required (tools ! 2))"
      "tool_name (tools ! 2) = ''search_rentals''"
    by (simp_all add: tools_def)
  have c2: "isError (CallToolRequest_handler skiRentals ''search_rentals'' (Some Map.empty)) = Some True"
    using inst2 t2 by fastforce
  have t1: "tools ! 1 \<in> set tools" "''rental_id'' \<in> set (required (tools ! 1))"
      "tool_name (tools ! 1) = ''get_rental_details''"
    by (simp_all add: tools_def)
  have c3: "isError (CallToolRequest_handler skiRentals ''get_rental_details'' (Some Map.empty)) = Some True"
    using inst3 t1 by fastforce
  have thrown: "try_block skiRentals ''get_rental_recommendations'' None =
       Inl (TypeError (cannot_read_undefined ''need''))"
    by (simp add: try_block_def get_arg_def)
  have c4: "CallToolRequest_handler skiRentals ''get_rental_recommendations'' None =
     \<lparr> content = [\<lparr> block_type = ''text'',
                   block_text = ''Error: '' @ cannot_read_undefined ''need'' \<rparr>],
       isError = Some True \<rparr>"
    using inst4 thrown by simp
  show ?thesis using c1 c2 c3 thrown c4 by simp
qed

subsection \<open>Recommendations\<close>

lemma toLowerCase_premium:
  "toLowerCase ''premium'' = ''premium''" "toLowerCase ''luxury'' = ''luxury''"
  by (simp_all add: toLowerCase_def toLowerCase_char_Char)

lemma switch_need_premium:
  assumes "need = ''premium'' \<or> need = ''luxury''"
  shows "switch_need store need =
     (filter (\<lambda>r. id' r = ''bootdoctors'' \<or> id' r = ''telluride-ski-rental-delivery''
                   \<or> id' r = ''telluride-sports'') store,
      ''These shops offer premium equipment and high-end services for the best skiing experience.'')"
  using assms by (auto simp add: switch_need_def)

lemma filter_on_ids:
  "map id' (filter (\<lambda>r. P (id' r)) store) = filter P (map id' store)"
  by (induction store) simp_all

text \<open>
  C5. For the need \<open>premium\<close> or \<open>luxury\<close>, \<open>get_rental_recommendations\<close> answers with the
  premium explanation and the records of the store, in store order, whose id is one of
  \<open>bootdoctors\<close>, \<open>telluride-ski-rental-delivery\<close> and \<open>telluride-sports\<close>. The selection
  looks at the id only: stores with the same ids select the same ids, whatever their
  other fields. In the catalog these are exactly three records.
\<close>

theorem recommend_premium_by_id:
  assumes "bag ''need'' = Some n" and "n = ''premium'' \<or> n = ''luxury''"
  shows "CallToolRequest_handler store ''get_rental_recommendations'' (Some bag) =
           \<lparr> content = [\<lparr> block_type = ''text'',
               block_text = JSON_stringify (JObject
                 [(''explanation'', JString
                     ''These shops offer premium equipment and high-end services for the best skiing experience.''),
                  (''recommendations'', JArray (map SkiRental_json
                     (filter (\<lambda>r. id' r = ''bootdoctors'' \<or> id' r = ''telluride-ski-rental-delivery''
                                  \<or> id' r = ''telluride-sports'') store)))]) \<rparr>],
             isError = None \<rparr>
         \<and> (\<forall>store'. map id' store' = map id' store \<longrightarrow>
               map id' (fst (switch_need store' (toLowerCase n))) =
               map id' (fst (switch_need store (toLowerCase n))))
         \<and> map id' (fst (switch_need skiRentals (toLowerCase n))) =
               [''telluride-sports'', ''bootdoctors'', ''telluride-ski-rental-delivery'']"
proof -
  let ?P = "\<lambda>i. i = ''bootdoctors'' \<or> i = ''telluride-ski-rental-delivery'' \<or> i = ''telluride-sports''"
  have low: "toLowerCase n = ''premium'' \<or> toLowerCase n = ''luxury''"
    using assms(2) toLowerCase_premium by auto
  note sw = switch_need_premium [OF low]
  have answer: "CallToolRequest_handler store ''get_rental_recommendations'' (Some bag) =
      text_result (JSON_stringify (response_json (switch_need store (toLowerCase n))))"
    using assms(1) handler_recommend [of bag n store] by simp
  have ids_of: "map id' (fst (switch_need s (toLowerCase n))) = filter ?P (map id' s)" for s
    using filter_on_ids [of ?P s] by (simp add: sw)
  have catalog: "map id' (fst (switch_need skiRentals (toLowerCase n))) =
      [''telluride-sports'', ''bootdoctors'', ''telluride-ski-rental-delivery'']"
    by (simp add: ids_of skiRentals_ids)
  have by_id: "\<forall>store'. map id' store' = map id' store \<longrightarrow>
      map id' (fst (switch_need store' (toLowerCase n))) =
      map id' (fst (switch_need store (toLowerCase n)))"
    by (simp add: ids_of)
  have shape: "CallToolRequest_handler store ''get_rental_recommendations'' (Some bag) =
           \<lparr> content = [\<lparr> block_type = ''text'',
               block_text = JSON_stringify (JObject
                 [(''explanation'', JString
                     ''These shops offer premium equipment and high-end services for the best skiing experience.''),
                  (''recommendations'', JArray (map SkiRental_json
                     (filter (\<lambda>r. id' r = ''bootdoctors'' \<or> id' r = ''telluride-ski-rental-delivery''
                                  \<or> id' r = ''telluride-sports'') store)))]) \<rparr>],
             isError = None \<rparr>"
    using answer by (simp add: sw [of store] text_result_def response_json_def SkiRentals_json_def)
  show ?thesis
    using shape by_id catalog by blast
qed

theorem recommend_premium_by_id_witness:
  "CallToolRequest_handler skiRentals ''get_rental_recommendations'' (Some [''need'' \<mapsto> ''premium'']) =
     \<lparr> content = [\<lparr> block_type = ''text'',
         block_text = JSON_stringify (JObject
           [(''explanation'', JString
               ''These shops offer premium equipment and high-end services for the best skiing experience.''),
            (''recommendations'', JArray (map SkiRental_json
               [skiRentals ! 0, skiRentals ! 1, skiRentals ! 4]))]) \<rparr>],
       isError = None \<rparr>
   \<and> CallToolRequest_handler skiRentals ''get_rental_recommendations'' (Some [''need'' \<mapsto> ''luxury'']) =
     CallToolRequest_handler skiRentals ''get_rental_recommendations'' (Some [''need'' \<mapsto> ''premium''])
   \<and> map id' [skiRentals ! 0, skiRentals ! 1, skiRentals ! 4] =
       [''telluride-sports'', ''bootdoctors'', ''telluride-ski-rental-delivery'']
   \<and> map id' (fst (switch_need (map (\<lambda>r. r\<lparr>services := [], rentalTypes := []\<rparr>) skiRentals)
                       (toLowerCase ''premium''))) =
       [''telluride-sports'', ''bootdoctors'', ''telluride-ski-rental-delivery'']"
proof -
  have a1: "[''need'' \<mapsto> ''premium''] ''need'' = Some ''premium''" by simp
  note inst = recommend_premium_by_id [of "[''need'' \<mapsto> ''premium'']" "''premium''" skiRentals]
  have same_ids: "map id' (map (\<lambda>r. r\<lparr>services := [], rentalTypes := []\<rparr>) skiRentals) = map id' skiRentals"
    by simp
  have stripped: "map id' (fst (switch_need (map (\<lambda>r. r\<lparr>services := [], rentalTypes := []\<rparr>) skiRentals)
                       (toLowerCase ''premium''))) =
       [''telluride-sports'', ''bootdoctors'', ''telluride-ski-rental-delivery'']"
  proof -
    have by_id: "\<forall>store'. map id' store' = map id' skiRentals \<longrightarrow>
        map id' (fst (switch_need store' (toLowerCase ''premium''))) =
        map id' (fst (switch_need skiRentals (toLowerCase ''premium'')))"
      using a1 inst by blast
    have catalog: "map id' (fst (switch_need skiRentals (toLowerCase ''premium''))) =
        [''telluride-sports'', ''bootdoctors'', ''telluride-ski-rental-delivery'']"
      using a1 inst by blast
    show ?thesis
      using by_id [rule_format, OF same_ids] catalog by (simp only:)
  qed
  have a2: "[''need'' \<mapsto> ''luxury''] ''need'' = Some ''luxury''" by simp
  have p: "CallToolRequest_handler skiRentals ''get_rental_recommendations'' (Some [''need'' \<mapsto> ''premium'']) =
           \<lparr> content = [\<lparr> block_type = ''text'',
               block_text = JSON_stringify (JObject
                 [(''explanation'', JString
                     ''These shops offer premium equipment and high-end services for the best skiing experience.''),
                  (''recommendations'', JArray (map SkiRental_json
                     (filter (\<lambda>r. id' r = ''bootdoctors'' \<or> id' r = ''telluride-ski-rental-delivery''
                                  \<or> id' r = ''telluride-sports'') skiRentals)))]) \<rparr>],
             isError = None \<rparr>"
    using a1 recommend_premium_by_id [of "[''need'' \<mapsto> ''premium'']" "''premium''" skiRentals]
    by blast
  have l: "CallToolRequest_handler skiRentals ''get_rental_recommendations'' (Some [''need'' \<mapsto> ''luxury'']) =
           \<lparr> content = [\<lparr> block_type = ''text'',
               block_text = JSON_stringify (JObject
                 [(''explanation'', JString
                     ''These shops offer premium equipment and high-end services for the best skiing experience.''),
                  (''recommendations'', JArray (map SkiRental_json
                     (filter (\<lambda>r. id' r = ''bootdoctors'' \<or> id' r = ''telluride-ski-rental-delivery''
                                  \<or> id' r = ''telluride-sports'') skiRentals)))]) \<rparr>],
             isError = None \<rparr>"
    using a2 recommend_premium_by_id [of "[''need'' \<mapsto> ''luxury'']" "''luxury''" skiRentals]
    by blast
  have sel: "filter (\<lambda>r. id' r = ''bootdoctors'' \<or> id' r = ''telluride-ski-rental-delivery''
                         \<or> id' r = ''telluride-sports'') skiRentals
      = [skiRentals ! 0, skiRentals ! 1, skiRentals ! 4]"
    by (simp add: skiRentals_def)
  have ids: "map id' [skiRentals ! 0, skiRentals ! 1, skiRentals ! 4] =
       [''telluride-sports'', ''bootdoctors'', ''telluride-ski-rental-delivery'']"
    by (simp add: skiRentals_def)
  have premium: "CallToolRequest_handler skiRentals ''get_rental_recommendations'' (Some [''need'' \<mapsto> ''premium'']) =
     \<lparr> content = [\<lparr> block_type = ''text'',
         block_text = JSON_stringify (JObject
           [(''explanation'', JString
               ''These shops offer premium equipment and high-end services for the best skiing experience.''),
            (''recommendations'', JArray (map SkiRental_json
               [skiRentals ! 0, skiRentals ! 1, skiRentals ! 4]))]) \<rparr>],
       isError = None \<rparr>"
    using p unfolding sel .
  have luxury: "CallToolRequest_handler skiRentals ''get_rental_recommendations'' (Some [''need'' \<mapsto> ''luxury'']) =
     CallToolRequest_handler skiRentals ''get_rental_recommendations'' (Some [''need'' \<mapsto> ''premium''])"
    by (simp only: p l)
  show ?thesis
    by (intro conjI premium luxury ids stripped)
qed

subsection \<open>Unrecognized needs\<close>

lemma switch_need_with_default:
  assumes "need \<notin> set recognized_needs"
  shows "switch_need_with lower store need =
     (store, ''Here are all available ski rental options in the Telluride area.'')"
  using assms by (simp add: switch_need_with_def switch_case_with_def recognized_needs_def)

lemma handler_with_recommend:
  assumes "bag ''need'' = Some n"
  shows "CallToolRequest_handler_with lower store ''get_rental_recommendations'' (Some bag) =
     text_result (JSON_stringify (response_json (switch_need_with lower store (lower n))))"
  using assms
  by (simp add: CallToolRequest_handler_with_def try_block_with_def get_arg_def
        call_toLowerCase_with_def)

text \<open>
  C6. Whatever the lower-casing \<open>lower\<close> of the engine is, for every need whose
  lower-cased form is none of the \<open>case\<close> labels, the answer carries the generic
  explanation and the whole store, in store order.
\<close>

theorem recommend_unrecognized_returns_all:
  assumes "bag ''need'' = Some n" and "lower n \<notin> set recognized_needs"
  shows "CallToolRequest_handler_with lower store ''get_rental_recommendations'' (Some bag) =
           \<lparr> content = [\<lparr> block_type = ''text'',
               block_text = JSON_stringify (JObject
                 [(''explanation'', JString
                     ''Here are all available ski rental options in the Telluride area.''),
                  (''recommendations'', JArray (map SkiRental_json store))]) \<rparr>],
             isError = None \<rparr>"
  using assms handler_with_recommend [of bag n lower store]
    switch_need_with_default [of "lower n" lower store]
  by (simp add: text_result_def response_json_def SkiRentals_json_def)

theorem recommend_unrecognized_returns_all_witness:
  "toLowerCase ''nonsense-keyword'' \<notin> set recognized_needs
   \<and> CallToolRequest_handler skiRentals ''get_rental_recommendations''
        (Some [''need'' \<mapsto> ''nonsense-keyword'']) =
      \<lparr> content = [\<lparr> block_type = ''text'',
          block_text = JSON_stringify (JObject
            [(''explanation'', JString
                ''Here are all available ski rental options in the Telluride area.''),
             (''recommendations'', JArray (map SkiRental_json skiRentals))]) \<rparr>],
        isError = None \<rparr>"
proof -
  have a: "[''need'' \<mapsto> ''nonsense-keyword''] ''need'' = Some ''nonsense-keyword''" by simp
  have u: "toLowerCase ''nonsense-keyword'' \<notin> set recognized_needs"
    by (simp add: toLowerCase_def toLowerCase_char_Char recognized_needs_def)
  show ?thesis
    using a u
      recommend_unrecognized_returns_all
        [of "[''need'' \<mapsto> ''nonsense-keyword'']" "''nonsense-keyword''" toLowerCase skiRentals]
    unfolding handler_with_toLowerCase
    by blast
qed

subsection \<open>Boundary cases of the search\<close>

text \<open>
  C7. The empty query returns every record of the store, because the empty string occurs
  in every string.
\<close>

theorem search_empty_query_returns_all:
  assumes "bag ''query'' = Some ''''"
  shows "CallToolRequest_handler store ''search_rentals'' (Some bag) =
           \<lparr> content = [\<lparr> block_type = ''text'',
                         block_text = JSON_stringify (JArray (map SkiRental_json store)) \<rparr>],
             isError = None \<rparr>
         \<and> filter (search_filter (toLowerCase '''')) store = store
         \<and> (\<forall>s. includes_str s (toLowerCase ''''))"
proof -
  have all: "filter (search_filter (toLowerCase '''')) store = store"
    by (simp add: toLowerCase_def search_filter_empty)
  have sub: "\<forall>s. includes_str s (toLowerCase '''')"
    by (simp add: toLowerCase_def includes_str_empty)
  have "CallToolRequest_handler store ''search_rentals'' (Some bag) =
      text_result (JSON_stringify (SkiRentals_json store))"
    using assms handler_search [of bag "''''" store] by (simp only: all)
  then show ?thesis
    using all sub by (simp add: text_result_def SkiRentals_json_def)
qed

theorem search_empty_query_returns_all_witness:
  "CallToolRequest_handler skiRentals ''search_rentals'' (Some [''query'' \<mapsto> '''']) =
     \<lparr> content = [\<lparr> block_type = ''text'',
                   block_text = JSON_stringify (JArray (map SkiRental_json skiRentals)) \<rparr>],
       isError = None \<rparr>
   \<and> length (filter (search_filter (toLowerCase '''')) skiRentals) = 6"
proof -
  have a: "[''query'' \<mapsto> ''''] ''query'' = Some ''''" by simp
  have n: "length skiRentals = 6" by (simp add: skiRentals_def)
  show ?thesis
    using a n search_empty_query_returns_all [of "[''query'' \<mapsto> '''']" skiRentals]
    by simp
qed




subsection \<open>The store is only read\<close>

text \<open>Cells are never overwritten by an allocation: what could be read before can be
  read after.\<close>

lemma cell_at_append:
  assumes "cell_at h a = Some c"
  shows "cell_at (h @ k) a = Some c"
  using assms by (simp add: cell_at_def nth_append split: if_splits)

lemma read_strings_append:
  assumes "read_strings h a = Some ss"
  shows "read_strings (h @ k) a = Some ss"
proof -
  from assms have "cell_at h a = Some (StringArray ss)"
    by (simp add: read_strings_def split: option.splits cell.splits)
  then have "cell_at (h @ k) a = Some (StringArray ss)"
    by (rule cell_at_append)
  then show ?thesis by (simp add: read_strings_def)
qed

lemma read_array_append:
  assumes "read_array h a = Some as"
  shows "read_array (h @ k) a = Some as"
proof -
  from assms have "cell_at h a = Some (RentalArray as)"
    by (simp add: read_array_def split: option.splits cell.splits)
  then have "cell_at (h @ k) a = Some (RentalArray as)"
    by (rule cell_at_append)
  then show ?thesis by (simp add: read_array_def)
qed

lemma read_rental_append:
  assumes "read_rental h a = Some r"
  shows "read_rental (h @ k) a = Some r"
proof -
  from assms obtain ob ss ts where ob: "cell_at h a = Some (RentalObject ob)"
    and ss: "read_strings h (o_services ob) = Some ss"
    and ts: "read_strings h (o_rentalTypes ob) = Some ts"
    and r: "r = \<lparr> id' = o_id ob, name = o_name ob, location = o_location ob,
                  address = o_address ob, phone = o_phone ob, website = o_website ob,
                  description = o_description ob, services = ss, rentalTypes = ts,
                  priceRange = o_priceRange ob, hours = o_hours ob \<rparr>"
    by (auto simp add: read_rental_def split: option.splits cell.splits)
  show ?thesis
    using cell_at_append [OF ob, of k] read_strings_append [OF ss, of k]
      read_strings_append [OF ts, of k] r
    by (simp add: read_rental_def)
qed

lemma read_all_append:
  assumes "read_all h as = Some rs"
  shows "read_all (h @ k) as = Some rs"
  using assms
proof (induction as arbitrary: rs)
  case Nil
  then show ?case by simp
next
  case (Cons a as)
  from Cons.prems obtain r rs' where r: "read_rental h a = Some r"
    and rs': "read_all h as = Some rs'" and rs: "rs = r # rs'"
    by (auto split: option.splits)
  show ?case
    using read_rental_append [OF r, of k] Cons.IH [OF rs'] rs by simp
qed

lemma read_rentals_append:
  assumes "read_rentals h a = Some rs"
  shows "read_rentals (h @ k) a = Some rs"
proof -
  from assms obtain as where as: "read_array h a = Some as" and rs: "read_all h as = Some rs"
    by (auto simp add: read_rentals_def split: option.splits)
  show ?thesis
    using read_array_append [OF as, of k] read_all_append [OF rs, of k]
    by (simp add: read_rentals_def)
qed

text \<open>The array literal leaves the heap it started on in place, and its array reads as
  the list of its records.\<close>

lemma alloc_record_reads:
  "\<exists>k. snd (alloc_record r h) = h @ k
       \<and> read_rental (snd (alloc_record r h)) (fst (alloc_record r h)) = Some r"
proof -
  let ?ob = "\<lparr> o_id = id' r, o_name = name r, o_location = location r,
                o_address = address r, o_phone = phone r, o_website = website r,
                o_description = description r, o_services = length h,
                o_rentalTypes = Suc (length h), o_priceRange = priceRange r,
                o_hours = hours r \<rparr>"
  let ?h' = "h @ [StringArray (services r), StringArray (rentalTypes r), RentalObject ?ob]"
  have res: "alloc_record r h = (Suc (Suc (length h)), ?h')"
    by (simp add: alloc_record_def alloc_def Let_def)
  have "read_rental ?h' (Suc (Suc (length h))) = Some r"
    by (simp add: read_rental_def read_strings_def cell_at_def nth_append)
  then show ?thesis
    using res by auto
qed

lemma alloc_records_reads:
  "\<exists>k. snd (alloc_records rs h) = h @ k
       \<and> read_all (snd (alloc_records rs h)) (fst (alloc_records rs h)) = Some rs"
proof (induction rs arbitrary: h)
  case Nil
  then show ?case by simp
next
  case (Cons r rs)
  obtain k1 where k1: "snd (alloc_record r h) = h @ k1"
    and r: "read_rental (snd (alloc_record r h)) (fst (alloc_record r h)) = Some r"
    using alloc_record_reads [of r h] by blast
  obtain k2 where k2: "snd (alloc_records rs (snd (alloc_record r h))) = snd (alloc_record r h) @ k2"
    and rs: "read_all (snd (alloc_records rs (snd (alloc_record r h))))
               (fst (alloc_records rs (snd (alloc_record r h)))) = Some rs"
    using Cons.IH [of "snd (alloc_record r h)"] by blast
  have "read_rental (snd (alloc_records rs (snd (alloc_record r h)))) (fst (alloc_record r h)) = Some r"
    unfolding k2 using r by (rule read_rental_append)
  then show ?case
    using rs k1 k2 by (simp add: Let_def)
qed

lemma array_literal_reads:
  "\<exists>k. snd (array_literal rs h) = h @ k
       \<and> read_rentals (snd (array_literal rs h)) (fst (array_literal rs h)) = Some rs"
proof -
  obtain k where k: "snd (alloc_records rs h) = h @ k"
    and rs: "read_all (snd (alloc_records rs h)) (fst (alloc_records rs h)) = Some rs"
    using alloc_records_reads [of rs h] by blast
  have "read_all (snd (alloc_records rs h) @ [RentalArray (fst (alloc_records rs h))])
          (fst (alloc_records rs h)) = Some rs"
    using rs by (rule read_all_append)
  then show ?thesis
    using k by (simp add: array_literal_def alloc_def Let_def read_rentals_def read_array_def
                  cell_at_def)
qed

lemma module_init_reads: "read_rentals (snd module_init) (fst module_init) = Some skiRentals"
  using array_literal_reads [of skiRentals "[]"] by (simp add: module_init_def)

text \<open>\<open>filter\<close> and \<open>find\<close> in memory return references to what the list functions
  return.\<close>

lemma filter_refs_reads:
  assumes "read_all h as = Some rs"
  shows "\<exists>kept. filter_refs p h as = Some kept \<and> read_all h kept = Some (filter p rs)"
  using assms
proof (induction as arbitrary: rs)
  case Nil
  then show ?case by simp
next
  case (Cons a as)
  from Cons.prems obtain r rs' where r: "read_rental h a = Some r"
    and rs': "read_all h as = Some rs'" and rs: "rs = r # rs'"
    by (auto split: option.splits)
  obtain kept where kept: "filter_refs p h as = Some kept" "read_all h kept = Some (filter p rs')"
    using Cons.IH [OF rs'] by blast
  show ?case
    using r kept rs by simp
qed

lemma Array_filter_reads:
  assumes "read_rentals h a = Some rs"
  shows "\<exists>a' c. Array_filter p a h = Some (a', h @ [c])
              \<and> read_rentals (h @ [c]) a' = Some (filter p rs)"
proof -
  from assms obtain as where as: "read_array h a = Some as" and rs: "read_all h as = Some rs"
    by (auto simp add: read_rentals_def split: option.splits)
  obtain kept where kept: "filter_refs p h as = Some kept" "read_all h kept = Some (filter p rs)"
    using filter_refs_reads [OF rs] by blast
  have result: "Array_filter p a h = Some (length h, h @ [RentalArray kept])"
    using as kept(1) by (simp add: Array_filter_def alloc_def)
  have "read_all (h @ [RentalArray kept]) kept = Some (filter p rs)"
    using kept(2) by (rule read_all_append)
  then have "read_rentals (h @ [RentalArray kept]) (length h) = Some (filter p rs)"
    by (simp add: read_rentals_def read_array_def cell_at_def)
  then show ?thesis
    using result by blast
qed

lemma find_ref_reads:
  assumes "read_all h as = Some rs"
  shows "case List.find p rs of
           None \<Rightarrow> find_ref p h as = Some None
         | Some r \<Rightarrow> (\<exists>a. find_ref p h as = Some (Some a) \<and> read_rental h a = Some r)"
  using assms
proof (induction as arbitrary: rs)
  case Nil
  then show ?case by simp
next
  case (Cons a as)
  from Cons.prems obtain r rs' where r: "read_rental h a = Some r"
    and rs': "read_all h as = Some rs'" and rs: "rs = r # rs'"
    by (auto split: option.splits)
  show ?case
    using r rs Cons.IH [OF rs'] by (simp split: option.splits)
qed

lemma Array_find_reads:
  assumes "read_rentals h a = Some rs"
  shows "case List.find p rs of
           None \<Rightarrow> Array_find p a h = Some None
         | Some r \<Rightarrow> (\<exists>a'. Array_find p a h = Some (Some a') \<and> read_rental h a' = Some r)"
proof -
  from assms obtain as where as: "read_array h a = Some as" and rs: "read_all h as = Some rs"
    by (auto simp add: read_rentals_def split: option.splits)
  show ?thesis
    using find_ref_reads [OF rs, of p] as
    by (simp add: Array_find_def split: option.splits)
qed

text \<open>The handler in memory returns what the handler on the list of the records
  returns, and leaves behind the heap it started on with new cells appended.\<close>

lemma switch_need_in_memory_reads:
  assumes "read_rentals h root = Some store"
  shows "\<exists>a k. switch_need_in_memory lower root need h =
                  Some ((a, snd (switch_need_with lower store need)), h @ k)
              \<and> read_rentals (h @ k) a = Some (fst (switch_need_with lower store need))"
proof (cases "fst (switch_case_with lower need)")
  case None
  then have "switch_need_in_memory lower root need h =
      Some ((root, snd (switch_need_with lower store need)), h @ [])"
    by (simp add: switch_need_in_memory_def switch_need_with_def)
  moreover have "read_rentals (h @ []) root = Some (fst (switch_need_with lower store need))"
    using None assms by (simp add: switch_need_with_def)
  ultimately show ?thesis by blast
next
  case (Some p)
  obtain a' c where f: "Array_filter p root h = Some (a', h @ [c])"
    and rs: "read_rentals (h @ [c]) a' = Some (filter p store)"
    using Array_filter_reads [OF assms, of p] by blast
  have "switch_need_in_memory lower root need h =
      Some ((a', snd (switch_need_with lower store need)), h @ [c])"
    using Some f by (simp add: switch_need_in_memory_def switch_need_with_def)
  moreover have "read_rentals (h @ [c]) a' = Some (fst (switch_need_with lower store need))"
    using Some rs by (simp add: switch_need_with_def)
  ultimately show ?thesis by blast
qed

lemma try_block_in_memory_refines:
  assumes "read_rentals h root = Some store"
  shows "\<exists>k. try_block_in_memory lower root nm args h =
             Some (try_block_with lower store nm args, h @ k)"
proof -
  consider (list) "nm = ''list_ski_rentals''"
    | (details) "nm = ''get_rental_details''"
    | (search) "nm = ''search_rentals''"
    | (recommend) "nm = ''get_rental_recommendations''"
    | (unknown) "nm \<noteq> ''list_ski_rentals''" "nm \<noteq> ''get_rental_details''"
        "nm \<noteq> ''search_rentals''" "nm \<noteq> ''get_rental_recommendations''"
    by blast
  then show ?thesis
  proof cases
    case list
    have "try_block_in_memory lower root nm args h =
        Some (try_block_with lower store nm args, h @ [])"
      using list assms
      by (simp add: try_block_in_memory_def try_block_with_def stringify_rentals_def)
    then show ?thesis by blast
  next
    case details
    show ?thesis
    proof (cases "get_arg args ''rental_id''")
      case (Inl e)
      have "try_block_in_memory lower root nm args h =
          Some (try_block_with lower store nm args, h @ [])"
        using details Inl by (simp add: try_block_in_memory_def try_block_with_def)
      then show ?thesis by blast
    next
      case (Inr rentalId)
      note found = Array_find_reads [OF assms, of "\<lambda>r. Some (id' r) = rentalId"]
      have "try_block_in_memory lower root nm args h =
          Some (try_block_with lower store nm args, h @ [])"
      proof (cases "List.find (\<lambda>r. Some (id' r) = rentalId) store")
        case None
        then show ?thesis
          using details Inr found
          by (simp add: try_block_in_memory_def try_block_with_def)
      next
        case (Some rental)
        then obtain a' where "Array_find (\<lambda>r. Some (id' r) = rentalId) root h = Some (Some a')"
            "read_rental h a' = Some rental"
          using found by auto
        then show ?thesis
          using details Inr Some
          by (simp add: try_block_in_memory_def try_block_with_def stringify_rental_def)
      qed
      then show ?thesis by blast
    qed
  next
    case search
    show ?thesis
    proof (cases "get_arg args ''query''")
      case (Inl e)
      have "try_block_in_memory lower root nm args h =
          Some (try_block_with lower store nm args, h @ [])"
        using search Inl by (simp add: try_block_in_memory_def try_block_with_def)
      then show ?thesis by blast
    next
      case (Inr v)
      show ?thesis
      proof (cases "call_toLowerCase_with lower v")
        case (Inl e)
        have "try_block_in_memory lower root nm args h =
            Some (try_block_with lower store nm args, h @ [])"
          using search \<open>get_arg args ''query'' = Inr v\<close> Inl
          by (simp add: try_block_in_memory_def try_block_with_def)
        then show ?thesis by blast
      next
        case (Inr query)
        obtain a' c where f: "Array_filter (search_filter_with lower query) root h = Some (a', h @ [c])"
          and rs: "read_rentals (h @ [c]) a' = Some (filter (search_filter_with lower query) store)"
          using Array_filter_reads [OF assms, of "search_filter_with lower query"] by blast
        have "try_block_in_memory lower root nm args h =
            Some (try_block_with lower store nm args, h @ [c])"
          using search \<open>get_arg args ''query'' = Inr v\<close> Inr f rs
          by (simp add: try_block_in_memory_def try_block_with_def stringify_rentals_def)
        then show ?thesis by blast
      qed
    qed
  next
    case recommend
    show ?thesis
    proof (cases "get_arg args ''need''")
      case (Inl e)
      have "try_block_in_memory lower root nm args h =
          Some (try_block_with lower store nm args, h @ [])"
        using recommend Inl by (simp add: try_block_in_memory_def try_block_with_def)
      then show ?thesis by blast
    next
      case (Inr v)
      show ?thesis
      proof (cases "call_toLowerCase_with lower v")
        case (Inl e)
        have "try_block_in_memory lower root nm args h =
            Some (try_block_with lower store nm args, h @ [])"
          using recommend \<open>get_arg args ''need'' = Inr v\<close> Inl
          by (simp add: try_block_in_memory_def try_block_with_def)
        then show ?thesis by blast
      next
        case (Inr need)
        obtain a k where sw: "switch_need_in_memory lower root need h =
              Some ((a, snd (switch_need_with lower store need)), h @ k)"
          and rs: "read_rentals (h @ k) a = Some (fst (switch_need_with lower store need))"
          using switch_need_in_memory_reads [OF assms, of lower need] by blast
        let ?c = "ResponseObject (snd (switch_need_with lower store need)) a"
        have rs': "read_rentals ((h @ k) @ [?c]) a = Some (fst (switch_need_with lower store need))"
          using rs by (rule read_rentals_append)
        have "stringify_response ((h @ k) @ [?c]) (length (h @ k)) =
            Some (JSON_stringify (response_json (switch_need_with lower store need)))"
          using rs' by (simp add: stringify_response_def cell_at_def)
        then have "try_block_in_memory lower root nm args h =
            Some (try_block_with lower store nm args, h @ (k @ [?c]))"
          using recommend \<open>get_arg args ''need'' = Inr v\<close> Inr sw
          by (simp add: try_block_in_memory_def try_block_with_def alloc_def Let_def)
        then show ?thesis by blast
      qed
    qed
  next
    case unknown
    have "try_block_in_memory lower root nm args h =
        Some (try_block_with lower store nm args, h @ [])"
      using unknown by (simp add: try_block_in_memory_def try_block_with_def)
    then show ?thesis by blast
  qed
qed

lemma handler_in_memory_refines:
  assumes "read_rentals h root = Some store"
  shows "\<exists>k. handler_in_memory lower root nm args h =
             Some (CallToolRequest_handler_with lower store nm args, h @ k)"
proof -
  obtain k where "try_block_in_memory lower root nm args h =
      Some (try_block_with lower store nm args, h @ k)"
    using try_block_in_memory_refines [OF assms] by blast
  then have "handler_in_memory lower root nm args h =
      Some (CallToolRequest_handler_with lower store nm args, h @ k)"
    by (simp add: handler_in_memory_def CallToolRequest_handler_with_def)
  then show ?thesis by blast
qed

lemma serve_refines:
  assumes "read_rentals h root = Some store"
  shows "\<exists>k. serve lower root calls h =
             Some (map (\<lambda>c. CallToolRequest_handler_with lower store (fst c) (snd c)) calls, h @ k)"
  using assms
proof (induction calls arbitrary: h)
  case Nil
  have "serve lower root [] h = Some ([], h @ [])" by simp
  then show ?case by (metis list.simps(8))
next
  case (Cons call calls)
  obtain k1 where first: "handler_in_memory lower root (fst call) (snd call) h =
      Some (CallToolRequest_handler_with lower store (fst call) (snd call), h @ k1)"
    using handler_in_memory_refines [OF Cons.prems] by blast
  have still: "read_rentals (h @ k1) root = Some store"
    using Cons.prems by (rule read_rentals_append)
  obtain k2 where rest: "serve lower root calls (h @ k1) =
      Some (map (\<lambda>c. CallToolRequest_handler_with lower store (fst c) (snd c)) calls, (h @ k1) @ k2)"
    using Cons.IH [OF still] by blast
  have "serve lower root (call # calls) h =
      Some (map (\<lambda>c. CallToolRequest_handler_with lower store (fst c) (snd c)) (call # calls),
            h @ (k1 @ k2))"
    using first rest by simp
  then show ?case by blast
qed

text \<open>
  C9. On a heap where the array bound to \<open>skiRentals\<close> reads as the list \<open>store\<close>,
  \<open>list_ski_rentals\<close> answers, whatever the arguments, with the serialisation of the whole
  store (an array of as many elements as the store has records, the element at each
  index being the record at that index) and leaves the heap as it is. Any sequence of
  calls is answered; every cell of the heap it started on is still in place afterwards,
  so the array still reads as \<open>store\<close>; each call of the sequence gets the answer that
  depends on the store and its arguments only, so equal calls get equal answers wherever
  they stand in the sequence. The module as loaded is such a heap for the catalog.
\<close>

theorem list_ski_rentals_full_and_store_unchanged:
  assumes "read_rentals h skiRentals_ref = Some store"
  shows "handler_in_memory lower skiRentals_ref ''list_ski_rentals'' args h =
           Some (\<lparr> content = [\<lparr> block_type = ''text'',
                               block_text = JSON_stringify (JArray (map SkiRental_json store)) \<rparr>],
                   isError = None \<rparr>, h)
         \<and> length (map SkiRental_json store) = length store
         \<and> (\<forall>i < length store. map SkiRental_json store ! i = SkiRental_json (store ! i))
         \<and> (\<exists>results h'.
               serve lower skiRentals_ref calls h = Some (results, h')
               \<and> prefix h h'
               \<and> (\<forall>a c. cell_at h a = Some c \<longrightarrow> cell_at h' a = Some c)
               \<and> read_rentals h' skiRentals_ref = Some store
               \<and> results = map (\<lambda>c. CallToolRequest_handler_with lower store (fst c) (snd c)) calls
               \<and> (\<forall>i < length calls. \<forall>j < length calls.
                     calls ! i = calls ! j \<longrightarrow> results ! i = results ! j))
         \<and> read_rentals (snd module_init) (fst module_init) = Some skiRentals"
proof -
  have listing: "handler_in_memory lower skiRentals_ref ''list_ski_rentals'' args h =
           Some (\<lparr> content = [\<lparr> block_type = ''text'',
                               block_text = JSON_stringify (JArray (map SkiRental_json store)) \<rparr>],
                   isError = None \<rparr>, h)"
    using assms
    by (simp add: handler_in_memory_def try_block_in_memory_def stringify_rentals_def
          text_result_def SkiRentals_json_def)
  obtain k where run: "serve lower skiRentals_ref calls h =
      Some (map (\<lambda>c. CallToolRequest_handler_with lower store (fst c) (snd c)) calls, h @ k)"
    using serve_refines [OF assms] by blast
  have kept: "\<forall>a c. cell_at h a = Some c \<longrightarrow> cell_at (h @ k) a = Some c"
    using cell_at_append by blast
  have still: "read_rentals (h @ k) skiRentals_ref = Some store"
    using assms by (rule read_rentals_append)
  have equal: "\<forall>i < length calls. \<forall>j < length calls. calls ! i = calls ! j \<longrightarrow>
      map (\<lambda>c. CallToolRequest_handler_with lower store (fst c) (snd c)) calls ! i =
      map (\<lambda>c. CallToolRequest_handler_with lower store (fst c) (snd c)) calls ! j"
    by simp
  have sequence: "\<exists>results h'.
               serve lower skiRentals_ref calls h = Some (results, h')
               \<and> prefix h h'
               \<and> (\<forall>a c. cell_at h a = Some c \<longrightarrow> cell_at h' a = Some c)
               \<and> read_rentals h' skiRentals_ref = Some store
               \<and> results = map (\<lambda>c. CallToolRequest_handler_with lower store (fst c) (snd c)) calls
               \<and> (\<forall>i < length calls. \<forall>j < length calls.
                     calls ! i = calls ! j \<longrightarrow> results ! i = results ! j)"
    using run kept still equal prefixI [of "h @ k" h k] by blast
  show ?thesis
    using listing sequence module_init_reads by simp
qed

theorem list_ski_rentals_full_and_store_unchanged_witness:
  "handler_in_memory toLowerCase (fst module_init) ''list_ski_rentals'' None (snd module_init) =
     Some (\<lparr> content = [\<lparr> block_type = ''text'',
                         block_text = JSON_stringify (JArray (map SkiRental_json skiRentals)) \<rparr>],
             isError = None \<rparr>, snd module_init)
   \<and> length (map SkiRental_json skiRentals) = 6
   \<and> (\<exists>h'. serve toLowerCase (fst module_init)
              [(''search_rentals'', Some [''query'' \<mapsto> ''boots'']),
               (''get_rental_recommendations'', Some [''need'' \<mapsto> ''family'']),
               (''get_rental_details'', Some [''rental_id'' \<mapsto> ''jagged-edge'']),
               (''list_ski_rentals'', None),
               (''search_rentals'', Some [''query'' \<mapsto> ''boots''])]
              (snd module_init)
            = Some ([CallToolRequest_handler skiRentals ''search_rentals'' (Some [''query'' \<mapsto> ''boots'']),
                     CallToolRequest_handler skiRentals ''get_rental_recommendations''
                       (Some [''need'' \<mapsto> ''family'']),
                     CallToolRequest_handler skiRentals ''get_rental_details''
                       (Some [''rental_id'' \<mapsto> ''jagged-edge'']),
                     CallToolRequest_handler skiRentals ''list_ski_rentals'' None,
                     CallToolRequest_handler skiRentals ''search_rentals'' (Some [''query'' \<mapsto> ''boots''])],
                    h')
          \<and> prefix (snd module_init) h'
          \<and> read_rentals h' (fst module_init) = Some skiRentals)"
proof -
  let ?calls = "[(''search_rentals'', Some [''query'' \<mapsto> ''boots'']),
               (''get_rental_recommendations'', Some [''need'' \<mapsto> ''family'']),
               (''get_rental_details'', Some [''rental_id'' \<mapsto> ''jagged-edge'']),
               (''list_ski_rentals'', None),
               (''search_rentals'', Some [''query'' \<mapsto> ''boots''])]"
  note loaded = module_init_reads
  note inst = list_ski_rentals_full_and_store_unchanged
    [of "snd module_init" "fst module_init" skiRentals toLowerCase None ?calls, OF loaded]
  note rest1 = inst [THEN conjunct2]
  note rest2 = rest1 [THEN conjunct2]
  note rest3 = rest2 [THEN conjunct2]
  have listing: "handler_in_memory toLowerCase (fst module_init) ''list_ski_rentals'' None (snd module_init) =
     Some (\<lparr> content = [\<lparr> block_type = ''text'',
                         block_text = JSON_stringify (JArray (map SkiRental_json skiRentals)) \<rparr>],
             isError = None \<rparr>, snd module_init)"
    by (rule inst [THEN conjunct1])
  have n: "length (map SkiRental_json skiRentals) = 6"
    by (simp add: skiRentals_def)
  obtain results h' where run: "serve toLowerCase (fst module_init) ?calls (snd module_init) = Some (results, h')"
    and frame: "prefix (snd module_init) h'"
    and still: "read_rentals h' (fst module_init) = Some skiRentals"
    and results: "results = map (\<lambda>c. CallToolRequest_handler_with toLowerCase skiRentals (fst c) (snd c)) ?calls"
    using rest3 [THEN conjunct1] by blast
  have "results =
      [CallToolRequest_handler skiRentals ''search_rentals'' (Some [''query'' \<mapsto> ''boots'']),
       CallToolRequest_handler skiRentals ''get_rental_recommendations'' (Some [''need'' \<mapsto> ''family'']),
       CallToolRequest_handler skiRentals ''get_rental_details'' (Some [''rental_id'' \<mapsto> ''jagged-edge'']),
       CallToolRequest_handler skiRentals ''list_ski_rentals'' None,
       CallToolRequest_handler skiRentals ''search_rentals'' (Some [''query'' \<mapsto> ''boots''])]"
    unfolding results by (simp only: list.map fst_conv snd_conv handler_with_toLowerCase)
  then have sequence: "\<exists>h'. serve toLowerCase (fst module_init) ?calls (snd module_init)
            = Some ([CallToolRequest_handler skiRentals ''search_rentals'' (Some [''query'' \<mapsto> ''boots'']),
                     CallToolRequest_handler skiRentals ''get_rental_recommendations''
                       (Some [''need'' \<mapsto> ''family'']),
                     CallToolRequest_handler skiRentals ''get_rental_details''
                       (Some [''rental_id'' \<mapsto> ''jagged-edge'']),
                     CallToolRequest_handler skiRentals ''list_ski_rentals'' None,
                     CallToolRequest_handler skiRentals ''search_rentals'' (Some [''query'' \<mapsto> ''boots''])],
                    h')
          \<and> prefix (snd module_init) h'
          \<and> read_rentals h' (fst module_init) = Some skiRentals"
    using run frame still by blast
  show ?thesis
    by (intro conjI listing n sequence)
qed

subsection \<open>Keywords are compared, not searched for\<close>





end
